theory Spec2Isabelle
  imports Main "HOL-Library.Word"
begin

unbundle bit_operations_syntax

section \<open>Data model of \<^verbatim>\<open>QtAvahiService\<close>\<close>

text \<open>
  The embedding follows \<^verbatim>\<open>src/qtavahiservice.cpp\<close>. Qt and the Avahi client library are
  outside the repository; what the code needs of them is written down here, either as a
  parameter of the environment record \<open>env\<close> or as a small explicit model whose
  assumptions are listed where it is defined.

  Strings are byte strings; the conversions \<^verbatim>\<open>toLatin1\<close>, \<^verbatim>\<open>toStdString\<close> and
  \<^verbatim>\<open>QLatin1String\<close> are the identity on them.
\<close>

subsection \<open>Values of Qt\<close>

text \<open>
  \<^verbatim>\<open>QHostAddress\<close>: an IPv4 address, an IPv6 address, or neither (null, or the dual-stack
  \<^verbatim>\<open>Any\<close>). The code compares with \<^verbatim>\<open>QHostAddress("0.0.0.0")\<close> and asks for the protocol.
\<close>

datatype QHostAddress =
    IPv4Address "32 word"
  | IPv6Address "128 word"
  | NullAddress

datatype NetworkLayerProtocol = IPv4Protocol | IPv6Protocol | UnknownNetworkLayerProtocol

fun protocol :: "QHostAddress \<Rightarrow> NetworkLayerProtocol" where
  "protocol (IPv4Address _) = IPv4Protocol"
| "protocol (IPv6Address _) = IPv6Protocol"
| "protocol NullAddress = UnknownNetworkLayerProtocol"

record QNetworkAddressEntry =
  ip :: QHostAddress
  netmask :: QHostAddress

record QNetworkInterface =
  index :: int
  addressEntries :: "QNetworkAddressEntry list"

text \<open>\<^verbatim>\<open>QHash<QString, QString>\<close>: keys unique, order irrelevant.\<close>

type_synonym txt_records = "string \<rightharpoonup> string"

text \<open>
  \<^verbatim>\<open>QTimer\<close>: the interval in milliseconds, the single-shot flag, and the time left until
  the next timeout while the timer is active (\<open>None\<close>: not active).
\<close>

record QTimer =
  interval :: nat
  singleShot :: bool
  remaining :: "nat option"

definition QTimer_start :: "QTimer \<Rightarrow> QTimer" where
  \<comment> \<open>\<^verbatim>\<open>QTimer::start()\<close>: starts or restarts the timer with the full interval.\<close>
  "QTimer_start t = t\<lparr>remaining := Some (interval t)\<rparr>"

definition QTimer_stop :: "QTimer \<Rightarrow> QTimer" where
  "QTimer_stop t = t\<lparr>remaining := None\<rparr>"

definition isActive :: "QTimer \<Rightarrow> bool" where
  "isActive t = (remaining t \<noteq> None)"

subsection \<open>Values of the Avahi client library\<close>

text \<open>Constants of the public headers \<^verbatim>\<open>avahi-common/address.h\<close> and \<^verbatim>\<open>error.h\<close>.\<close>

definition AVAHI_IF_UNSPEC :: int where "AVAHI_IF_UNSPEC = -1"
definition AVAHI_PROTO_INET :: int where "AVAHI_PROTO_INET = 0"
definition AVAHI_PROTO_INET6 :: int where "AVAHI_PROTO_INET6 = 1"
definition AVAHI_ERR_COLLISION :: int where "AVAHI_ERR_COLLISION = -8"

datatype AvahiClientState =
    AVAHI_CLIENT_S_REGISTERING
  | AVAHI_CLIENT_S_RUNNING
  | AVAHI_CLIENT_S_COLLISION
  | AVAHI_CLIENT_FAILURE
  | AVAHI_CLIENT_CONNECTING

text \<open>One service entry as handed to \<^verbatim>\<open>avahi_entry_group_add_service_strlst\<close>.\<close>

record service_entry =
  e_interface :: int
  e_protocol :: int
  e_name :: string
  e_type :: string
  e_port :: "16 word"
  e_txt :: "string list"

text \<open>
  The entry group at the discovery layer: the entries added since the last reset, and
  whether a commit of them has been accepted.
\<close>

record AvahiEntryGroup =
  entries :: "service_entry list"
  committed :: bool

definition avahi_entry_group_new :: AvahiEntryGroup where
  "avahi_entry_group_new = \<lparr>entries = [], committed = False\<rparr>"

definition avahi_entry_group_is_empty :: "AvahiEntryGroup \<Rightarrow> bool" where
  "avahi_entry_group_is_empty g = (entries g = [])"

definition avahi_entry_group_reset :: "AvahiEntryGroup \<Rightarrow> AvahiEntryGroup" where
  "avahi_entry_group_reset g = g\<lparr>entries := [], committed := False\<rparr>"

subsection \<open>The environment of one service object\<close>

text \<open>
  Everything the code reads from outside and cannot influence:
  \<^item> \<open>allInterfaces\<close>: the result of \<^verbatim>\<open>QNetworkInterface::allInterfaces()\<close>;
  \<^item> \<open>hostInSubnet a e\<close>: whether \<^verbatim>\<open>a.isInSubnet(QHostAddress::parseSubnet(ip/netmask))\<close> holds
    for the address entry \<open>e\<close> (Qt's subnet test, kept abstract);
  \<^item> \<open>avahi_alternative_service_name\<close>: Avahi's name mangler;
  \<^item> \<open>createTxtList\<close>: \<^verbatim>\<open>QtAvahiServicePrivate::createTxtList\<close>;
  \<^item> \<open>avahi_reply k\<close>: the error code with which the daemon answers the \<open>k\<close>-th call that
    returns one (add-service, commit, update-txt); \<open>0\<close> is \<^verbatim>\<open>AVAHI_OK\<close>;
  \<^item> \<open>avahi_strerror\<close>: the text of an error code.
\<close>

record env =
  allInterfaces :: "QNetworkInterface list"
  hostInSubnet :: "QHostAddress \<Rightarrow> QNetworkAddressEntry \<Rightarrow> bool"
  avahi_alternative_service_name :: "string \<Rightarrow> string"
  createTxtList :: "txt_records \<Rightarrow> string list"
  avahi_reply :: "nat \<Rightarrow> int"
  avahi_strerror :: "int \<Rightarrow> string"

subsection \<open>The service object\<close>

datatype QtAvahiServiceState =
    QtAvahiServiceStateUncommitted
  | QtAvahiServiceStateRegistering
  | QtAvahiServiceStateEstablished
  | QtAvahiServiceStateCollision
  | QtAvahiServiceStateFailure

text \<open>The lines written through \<^verbatim>\<open>qCWarning\<close> and \<^verbatim>\<open>qCDebug\<close>, one constructor per place.\<close>

datatype log_line =
    WarnClientNotAvailable string "16 word" string
  | DebugRegistering string QHostAddress "16 word" string int
  | WarnError int
  | WarnAlreadyRegistered
  | WarnNoGroup
  | DebugUnregistering
  | DebugUpdatedTxt
  | DebugCollision string

text \<open>
  The members of \<^verbatim>\<open>QtAvahiService\<close> (\<open>m_\<close>) and of its private part \<^verbatim>\<open>d_ptr\<close> (\<open>d_\<close>), in
  one record. \<open>d_client\<close> is \<^verbatim>\<open>d_ptr->client->m_client\<close> with its state (\<open>None\<close>: the null
  pointer), \<open>client_errno\<close> what \<^verbatim>\<open>avahi_client_errno\<close> returns for it, \<open>avahi_calls\<close> the
  number of daemon replies consumed so far, and \<open>log\<close> the lines written.
\<close>

record QtAvahiService =
  m_name :: string
  m_hostAddress :: QHostAddress
  m_port :: "16 word"
  m_serviceType :: string
  m_txtRecords :: txt_records
  m_state :: QtAvahiServiceState
  m_reregisterTimer :: QTimer
  d_name :: string
  d_hostAddress :: QHostAddress
  d_port :: "16 word"
  d_type :: string
  d_txtRecords :: txt_records
  d_group :: "AvahiEntryGroup option"
  d_serviceList :: "string list option"
  d_error :: int
  d_client :: "AvahiClientState option"
  client_errno :: int
  avahi_calls :: nat
  log :: "log_line list"

section \<open>Operations\<close>

subsection \<open>Accessors\<close>

definition hostAddress :: "QtAvahiService \<Rightarrow> QHostAddress" where
  "hostAddress s = d_hostAddress s"

definition port :: "QtAvahiService \<Rightarrow> 16 word" where
  "port s = d_port s"

definition name :: "QtAvahiService \<Rightarrow> string" where
  "name s = d_name s"

definition serviceType :: "QtAvahiService \<Rightarrow> string" where
  "serviceType s = d_type s"

definition txtRecords :: "QtAvahiService \<Rightarrow> txt_records" where
  "txtRecords s = d_txtRecords s"

definition state :: "QtAvahiService \<Rightarrow> QtAvahiServiceState" where
  "state s = m_state s"

definition isValid :: "QtAvahiService \<Rightarrow> bool" where
  "isValid s = (d_group s \<noteq> None \<and> d_error s = 0)"

definition errorString :: "env \<Rightarrow> QtAvahiService \<Rightarrow> string" where
  "errorString env s =
     (if d_client s = None then ''Invalid client.''
      else avahi_strerror env (client_errno s))"

subsection \<open>Choosing the interface\<close>

text \<open>
  The two nested \<^verbatim>\<open>foreach\<close> loops of \<^verbatim>\<open>registerService\<close> (lines 156 to 167) and of
  \<^verbatim>\<open>updateTxtRecord\<close> (lines 249 to 260), which are the same text. The inner loop runs over
  the address entries of one interface and leaves at the first entry whose subnet holds
  the address (\<^verbatim>\<open>break\<close>); the outer loop runs over all interfaces and has no exit.
\<close>

fun scanAddressEntries ::
  "(QHostAddress \<Rightarrow> QNetworkAddressEntry \<Rightarrow> bool) \<Rightarrow> QHostAddress \<Rightarrow> int \<Rightarrow>
   QNetworkAddressEntry list \<Rightarrow> int \<Rightarrow> int" where
  "scanAddressEntries inSub a idx [] ifIndex = ifIndex"
| "scanAddressEntries inSub a idx (e # es) ifIndex =
     (if inSub a e then idx else scanAddressEntries inSub a idx es ifIndex)"

fun scanInterfaces ::
  "(QHostAddress \<Rightarrow> QNetworkAddressEntry \<Rightarrow> bool) \<Rightarrow> QHostAddress \<Rightarrow>
   QNetworkInterface list \<Rightarrow> int \<Rightarrow> int" where
  "scanInterfaces inSub a [] ifIndex = ifIndex"
| "scanInterfaces inSub a (i # is) ifIndex =
     scanInterfaces inSub a is (scanAddressEntries inSub a (index i) (addressEntries i) ifIndex)"

definition interfaceIndexFor :: "env \<Rightarrow> QHostAddress \<Rightarrow> int" where
  "interfaceIndexFor env a =
     (if a \<noteq> IPv4Address 0
      then scanInterfaces (hostInSubnet env) a (allInterfaces env) AVAHI_IF_UNSPEC
      else AVAHI_IF_UNSPEC)"

definition protocolOf :: "QHostAddress \<Rightarrow> int" where
  "protocolOf a = (if protocol a = IPv6Protocol then AVAHI_PROTO_INET6 else AVAHI_PROTO_INET)"

subsection \<open>Calls into the discovery layer\<close>

text \<open>
  Assumptions on the Avahi client library, which is not part of the repository:
  a call that returns an error code returns the next reply of the daemon, and a reply
  other than \<open>0\<close> is also recorded as the client's last error; an accepted add-service call
  appends its entry to the group and a refused one adds nothing; an accepted commit marks
  the group committed; an accepted update replaces the records of the entries it names;
  \<^verbatim>\<open>avahi_entry_group_new\<close> returns a group while the client runs.
\<close>

definition avahi_entry_group_add_service_strlst ::
  "env \<Rightarrow> int \<Rightarrow> int \<Rightarrow> string \<Rightarrow> string \<Rightarrow> 16 word \<Rightarrow> string list \<Rightarrow>
   QtAvahiService \<Rightarrow> QtAvahiService" where
  "avahi_entry_group_add_service_strlst env ifIndex proto nm ty prt lst s =
     (let err = avahi_reply env (avahi_calls s);
          e = \<lparr>e_interface = ifIndex, e_protocol = proto, e_name = nm, e_type = ty,
               e_port = prt, e_txt = lst\<rparr>
      in s\<lparr>d_error := err,
           avahi_calls := Suc (avahi_calls s),
           client_errno := (if err = 0 then client_errno s else err),
           d_group := (if err = 0
                       then map_option (\<lambda>g. g\<lparr>entries := entries g @ [e]\<rparr>) (d_group s)
                       else d_group s)\<rparr>)"

definition avahi_entry_group_commit :: "env \<Rightarrow> QtAvahiService \<Rightarrow> QtAvahiService" where
  "avahi_entry_group_commit env s =
     (let err = avahi_reply env (avahi_calls s)
      in s\<lparr>d_error := err,
           avahi_calls := Suc (avahi_calls s),
           client_errno := (if err = 0 then client_errno s else err),
           d_group := (if err = 0
                       then map_option (\<lambda>g. g\<lparr>committed := True\<rparr>) (d_group s)
                       else d_group s)\<rparr>)"

definition sameService :: "int \<Rightarrow> int \<Rightarrow> string \<Rightarrow> string \<Rightarrow> service_entry \<Rightarrow> bool" where
  "sameService ifIndex proto nm ty e =
     (e_interface e = ifIndex \<and> e_protocol e = proto \<and> e_name e = nm \<and> e_type e = ty)"

definition avahi_entry_group_update_service_txt_strlst ::
  "env \<Rightarrow> int \<Rightarrow> int \<Rightarrow> string \<Rightarrow> string \<Rightarrow> string list \<Rightarrow>
   QtAvahiService \<Rightarrow> QtAvahiService" where
  "avahi_entry_group_update_service_txt_strlst env ifIndex proto nm ty lst s =
     (let err = avahi_reply env (avahi_calls s)
      in s\<lparr>d_error := err,
           avahi_calls := Suc (avahi_calls s),
           client_errno := (if err = 0 then client_errno s else err),
           d_group := (if err = 0
                       then map_option
                              (\<lambda>g. g\<lparr>entries :=
                                 map (\<lambda>e. if sameService ifIndex proto nm ty e
                                          then e\<lparr>e_txt := lst\<rparr> else e) (entries g)\<rparr>)
                              (d_group s)
                       else d_group s)\<rparr>)"

subsection \<open>\<^verbatim>\<open>resetService\<close>, \<^verbatim>\<open>updateTxtRecord\<close>\<close>

definition writeLog :: "log_line \<Rightarrow> QtAvahiService \<Rightarrow> QtAvahiService" where
  "writeLog l s = s\<lparr>log := log s @ [l]\<rparr>"

definition resetService :: "bool \<Rightarrow> QtAvahiService \<Rightarrow> QtAvahiService" where
  "resetService silent s =
     (case d_group s of
        None \<Rightarrow> writeLog WarnNoGroup s
      | Some g \<Rightarrow>
          (let s1 = (if \<not> silent then writeLog DebugUnregistering s else s);
               s2 = (if d_serviceList s1 \<noteq> None then s1\<lparr>d_serviceList := None\<rparr> else s1);
               s3 = s2\<lparr>d_group := Some (avahi_entry_group_reset g)\<rparr>
           in s3\<lparr>m_reregisterTimer := QTimer_stop (m_reregisterTimer s3)\<rparr>))"

definition updateTxtRecord :: "env \<Rightarrow> txt_records \<Rightarrow> QtAvahiService \<Rightarrow> bool \<times> QtAvahiService" where
  "updateTxtRecord env txt s =
     (if d_group s = None then (False, s)
      else
        (let s1 = s\<lparr>m_txtRecords := txt\<rparr>;
             ifIndex = interfaceIndexFor env (d_hostAddress s1);
             s2 = s1\<lparr>d_serviceList := Some (createTxtList env txt)\<rparr>;
             s3 = avahi_entry_group_update_service_txt_strlst env ifIndex
                    (protocolOf (d_hostAddress s2)) (d_name s2) (d_type s2)
                    (the (d_serviceList s2)) s2
         in if d_error s3 \<noteq> 0 then (False, writeLog (WarnError (d_error s3)) s3)
            else (True, writeLog DebugUpdatedTxt s3)))"

subsection \<open>\<^verbatim>\<open>registerService\<close> and \<^verbatim>\<open>handleCollision\<close>\<close>

definition clientRunning :: "QtAvahiService \<Rightarrow> bool" where
  \<comment> \<open>line 130: the client exists and its state is \<^verbatim>\<open>AVAHI_CLIENT_S_RUNNING\<close>\<close>
  "clientRunning s = (d_client s = Some AVAHI_CLIENT_S_RUNNING)"

definition cacheValues ::
  "string \<Rightarrow> QHostAddress \<Rightarrow> 16 word \<Rightarrow> string \<Rightarrow> txt_records \<Rightarrow>
   QtAvahiService \<Rightarrow> QtAvahiService" where
  \<comment> \<open>lines 135 to 147\<close>
  "cacheValues nm a prt ty txt s =
     s\<lparr>m_name := nm, m_hostAddress := a, m_port := prt, m_serviceType := ty,
       m_txtRecords := txt,
       d_name := nm, d_hostAddress := a, d_port := prt, d_type := ty,
       d_txtRecords := txt\<rparr>"

definition createGroupIfUnset :: "QtAvahiService \<Rightarrow> QtAvahiService" where
  \<comment> \<open>lines 149 to 151\<close>
  "createGroupIfUnset s =
     (if d_group s = None then s\<lparr>d_group := Some avahi_entry_group_new\<rparr> else s)"

definition groupIsEmpty :: "QtAvahiService \<Rightarrow> bool" where
  "groupIsEmpty s = (case d_group s of None \<Rightarrow> False | Some g \<Rightarrow> avahi_entry_group_is_empty g)"

definition addService ::
  "env \<Rightarrow> string \<Rightarrow> QHostAddress \<Rightarrow> 16 word \<Rightarrow> string \<Rightarrow> txt_records \<Rightarrow> bool \<Rightarrow>
   QtAvahiService \<Rightarrow> QtAvahiService" where
  \<comment> \<open>lines 155 to 183: interface, debug line, record list, add-service call\<close>
  "addService env nm a prt ty txt silent s =
     (let ifIndex = interfaceIndexFor env a;
          s1 = (if \<not> silent then writeLog (DebugRegistering nm a prt ty ifIndex) s else s);
          s2 = s1\<lparr>d_serviceList := Some (createTxtList env txt)\<rparr>
      in avahi_entry_group_add_service_strlst env ifIndex (protocolOf a)
           (d_name s2) (d_type s2) (d_port s2) (the (d_serviceList s2)) s2)"

definition commitService :: "env \<Rightarrow> QtAvahiService \<Rightarrow> bool \<times> QtAvahiService" where
  \<comment> \<open>lines 201 to 206 and 212 to 216: commit, then start the timer\<close>
  "commitService env s =
     (let s1 = avahi_entry_group_commit env s
      in if d_error s1 \<noteq> 0 then (False, writeLog (WarnError (d_error s1)) s1)
         else (True, s1\<lparr>m_reregisterTimer := QTimer_start (m_reregisterTimer s1)\<rparr>))"

text \<open>
  \<^verbatim>\<open>registerService\<close> calls \<^verbatim>\<open>handleCollision\<close>, which calls \<^verbatim>\<open>registerService\<close> again, with
  no bound in the code. The first argument bounds the depth of that recursion: with
  \<open>fuel\<close> left, \<open>fuel\<close> nested retries can be made, and \<open>None\<close> says that the call has not
  returned within the bound.
\<close>

fun registerService ::
  "nat \<Rightarrow> env \<Rightarrow> string \<Rightarrow> QHostAddress \<Rightarrow> 16 word \<Rightarrow> string \<Rightarrow> txt_records \<Rightarrow> bool \<Rightarrow>
   QtAvahiService \<Rightarrow> (bool \<times> QtAvahiService) option"
and handleCollision ::
  "nat \<Rightarrow> env \<Rightarrow> QtAvahiService \<Rightarrow> (bool \<times> QtAvahiService) option" where
  "registerService fuel env nm a prt ty txt silent s =
     (if \<not> clientRunning s
      then Some (False, writeLog (WarnClientNotAvailable nm prt ty) s)
      else
        (let s1 = cacheValues nm a prt ty txt s;
             s2 = createGroupIfUnset s1
         in if groupIsEmpty s2
            then
              (let s3 = addService env nm a prt ty txt silent s2
               in if d_error s3 \<noteq> 0
                  then
                    (if d_error s3 = AVAHI_ERR_COLLISION
                     then
                       (case handleCollision fuel env s3 of
                          None \<Rightarrow> None
                        | Some (ok, s4) \<Rightarrow>
                            if \<not> ok then Some (False, writeLog (WarnError (d_error s4)) s4)
                            else Some (commitService env s4))
                     else Some (False, writeLog (WarnError (d_error s3)) s3))
                  else Some (commitService env s3))
            else Some (False, writeLog WarnAlreadyRegistered s2)))"
| "handleCollision 0 env s = None"
| "handleCollision (Suc fuel) env s =
     (let alternativeServiceName = avahi_alternative_service_name env (name s);
          s1 = writeLog (DebugCollision alternativeServiceName) s;
          s2 = resetService False s1
      in registerService fuel env alternativeServiceName
           (hostAddress s2) (port s2) (serviceType s2) (txtRecords s2) False s2)"

declare registerService.simps [simp del]

declare handleCollision.simps(2) [simp del]

subsection \<open>\<^verbatim>\<open>onStateChanged\<close> and the timeout of the timer\<close>

definition onStateChanged ::
  "nat \<Rightarrow> env \<Rightarrow> QtAvahiServiceState \<Rightarrow> QtAvahiService \<Rightarrow> QtAvahiService option" where
  "onStateChanged fuel env st s =
     (if m_state s = st then Some s
      else
        (let s1 = s\<lparr>m_state := st\<rparr>
         in case m_state s1 of
              QtAvahiServiceStateUncommitted \<Rightarrow> Some s1
            | QtAvahiServiceStateRegistering \<Rightarrow> Some s1
            | QtAvahiServiceStateEstablished \<Rightarrow> Some s1
            | QtAvahiServiceStateCollision \<Rightarrow> map_option snd (handleCollision fuel env s1)
            | QtAvahiServiceStateFailure \<Rightarrow> Some s1))"

text \<open>
  The lambda connected to \<^verbatim>\<open>QTimer::timeout\<close> in the constructor (lines 72 to 76). A
  single-shot timer is no longer active when its slot runs.
\<close>

definition QTimer_fired :: "QTimer \<Rightarrow> QTimer" where
  "QTimer_fired t = (if singleShot t then QTimer_stop t else QTimer_start t)"

definition timeout :: "nat \<Rightarrow> env \<Rightarrow> QtAvahiService \<Rightarrow> QtAvahiService option" where
  "timeout fuel env s =
     (let s0 = s\<lparr>m_reregisterTimer := QTimer_fired (m_reregisterTimer s)\<rparr>;
          s1 = resetService True s0
      in map_option snd
           (registerService fuel env (m_name s1) (m_hostAddress s1) (m_port s1)
              (m_serviceType s1) (m_txtRecords s1) True s1))"

subsection \<open>Construction and the reachable configurations\<close>

text \<open>
  What the constructor (lines 60 to 77) establishes: the cached state is
  \<^verbatim>\<open>QtAvahiServiceStateUncommitted\<close>, the timer has an interval of 60000 ms, is single-shot
  and has not been started. The cached values and the members of the private part keep
  whatever their default is (the constructor of \<^verbatim>\<open>QtAvahiServicePrivate\<close> is not among the
  sources); nothing below depends on them.
\<close>

definition constructed :: "QtAvahiService \<Rightarrow> bool" where
  "constructed s =
     (m_state s = QtAvahiServiceStateUncommitted \<and>
      m_reregisterTimer s = \<lparr>interval = 60000, singleShot = True, remaining = None\<rparr>)"

text \<open>
  The configurations between two events. An event is a call of the public interface, a
  state change reported by the discovery layer, the timeout of the running timer once
  its time is up, the passing of time, or a change of the client connection.
\<close>

inductive reachable :: "env \<Rightarrow> QtAvahiService \<Rightarrow> bool" for env :: env where
  r_constructed: "constructed s \<Longrightarrow> reachable env s"
| r_register:
    "reachable env s \<Longrightarrow>
     registerService fuel env nm a prt ty txt silent s = Some (r, s') \<Longrightarrow> reachable env s'"
| r_reset: "reachable env s \<Longrightarrow> reachable env (resetService silent s)"
| r_update: "reachable env s \<Longrightarrow> updateTxtRecord env txt s = (r, s') \<Longrightarrow> reachable env s'"
| r_stateChanged:
    "reachable env s \<Longrightarrow> onStateChanged fuel env st s = Some s' \<Longrightarrow> reachable env s'"
| r_timeout:
    "reachable env s \<Longrightarrow> remaining (m_reregisterTimer s) = Some 0 \<Longrightarrow>
     timeout fuel env s = Some s' \<Longrightarrow> reachable env s'"
| r_elapse:
    "reachable env s \<Longrightarrow> remaining (m_reregisterTimer s) = Some t \<Longrightarrow> d \<le> t \<Longrightarrow>
     reachable env (s\<lparr>m_reregisterTimer := (m_reregisterTimer s)\<lparr>remaining := Some (t - d)\<rparr>\<rparr>)"
| r_client: "reachable env s \<Longrightarrow> reachable env (s\<lparr>d_client := c, client_errno := e\<rparr>)"

subsection \<open>The interface choice in the words of the specification\<close>

text \<open>
  "Pick the first interface whose subnet contains the bind address; otherwise use
  unspecified": the index of the first interface, in iteration order, one of whose
  address entries holds the address.
\<close>

definition spec_firstMatchingInterface :: "env \<Rightarrow> QHostAddress \<Rightarrow> int" where
  "spec_firstMatchingInterface env a =
     (if a = IPv4Address 0 then AVAHI_IF_UNSPEC
      else case find (\<lambda>i. list_ex (hostInSubnet env a) (addressEntries i)) (allInterfaces env) of
             None \<Rightarrow> AVAHI_IF_UNSPEC
           | Some i \<Rightarrow> index i)"

subsection \<open>Predicates and shorthands used in the statements\<close>

text \<open>
  \<open>prepared\<close> is the state of \<^verbatim>\<open>registerService\<close> at line 153, after the values are cached
  and the group exists; \<open>retryState\<close> is the state in which \<^verbatim>\<open>handleCollision\<close> calls
  \<^verbatim>\<open>registerService\<close> (line 306).
\<close>

abbreviation prepared ::
  "string \<Rightarrow> QHostAddress \<Rightarrow> 16 word \<Rightarrow> string \<Rightarrow> txt_records \<Rightarrow>
   QtAvahiService \<Rightarrow> QtAvahiService" where
  "prepared nm a prt ty recs s \<equiv> createGroupIfUnset (cacheValues nm a prt ty recs s)"

abbreviation retryState :: "env \<Rightarrow> QtAvahiService \<Rightarrow> QtAvahiService" where
  "retryState env s \<equiv>
     resetService False
       (writeLog (DebugCollision (avahi_alternative_service_name env (d_name s))) s)"

text \<open>The group holds an entry and a commit of it has been accepted.\<close>

definition announced :: "QtAvahiService \<Rightarrow> bool" where
  "announced s =
     (case d_group s of None \<Rightarrow> False | Some g \<Rightarrow> entries g \<noteq> [] \<and> committed g)"

definition timerGuarded :: "QtAvahiService \<Rightarrow> bool" where
  "timerGuarded s = (isActive (m_reregisterTimer s) \<longrightarrow> announced s)"

section \<open>A concrete configuration\<close>

text \<open>
  A host with a wired interface (index 2, 192.168.1.10/24) and a wireless one (index 3,
  192.168.1.20/24) on the same network, a daemon that accepts every call, and a freshly
  constructed service whose client is running. For IPv4 with a netmask, an address lies
  in the subnet of an entry when both agree on the bits of the mask.
\<close>

definition maskedEqual :: "QHostAddress \<Rightarrow> QNetworkAddressEntry \<Rightarrow> bool" where
  "maskedEqual a e =
     (case (a, ip e, netmask e) of
        (IPv4Address x, IPv4Address i, IPv4Address m) \<Rightarrow> x AND m = i AND m
      | _ \<Rightarrow> False)"

definition homeNetwork :: env where
  "homeNetwork =
     \<lparr>allInterfaces =
        [\<lparr>index = 2, addressEntries =
            [\<lparr>ip = IPv4Address 0xC0A8010A, netmask = IPv4Address 0xFFFFFF00\<rparr>]\<rparr>,
         \<lparr>index = 3, addressEntries =
            [\<lparr>ip = IPv4Address 0xC0A80114, netmask = IPv4Address 0xFFFFFF00\<rparr>]\<rparr>],
      hostInSubnet = maskedEqual,
      avahi_alternative_service_name = (\<lambda>n. n @ '' #2''),
      createTxtList = (\<lambda>m. case m ''note'' of None \<Rightarrow> [] | Some v \<Rightarrow> [''note='' @ v]),
      avahi_reply = (\<lambda>k. 0),
      avahi_strerror = (\<lambda>c. if c = 0 then ''OK'' else ''Operation failed'')\<rparr>"

definition collidingOnce :: env where
  \<comment> \<open>the same host; the daemon answers the first add-service call with a name collision
      and refuses the fourth call, a commit of a group that is committed already, with
      \<^verbatim>\<open>AVAHI_ERR_BAD_STATE\<close>\<close>
  "collidingOnce =
     homeNetwork\<lparr>avahi_reply :=
       (\<lambda>k. if k = 0 then AVAHI_ERR_COLLISION else if k = 3 then - 2 else 0)\<rparr>"

definition refusingDaemon :: env where
  \<comment> \<open>the same host, but the daemon refuses every call with \<^verbatim>\<open>AVAHI_ERR_FAILURE\<close>\<close>
  "refusingDaemon = homeNetwork\<lparr>avahi_reply := (\<lambda>k. - 1)\<rparr>"

definition freshService :: QtAvahiService where
  "freshService =
     \<lparr>m_name = [], m_hostAddress = NullAddress, m_port = 0, m_serviceType = [],
      m_txtRecords = Map.empty, m_state = QtAvahiServiceStateUncommitted,
      m_reregisterTimer = \<lparr>interval = 60000, singleShot = True, remaining = None\<rparr>,
      d_name = [], d_hostAddress = NullAddress, d_port = 0, d_type = [],
      d_txtRecords = Map.empty, d_group = None, d_serviceList = None, d_error = 0,
      d_client = Some AVAHI_CLIENT_S_RUNNING, client_errno = 0, avahi_calls = 0, log = []\<rparr>"

definition printerEntry :: service_entry where
  "printerEntry =
     \<lparr>e_interface = - 1, e_protocol = 0, e_name = ''printer'', e_type = ''_ipp._tcp'',
      e_port = 9100, e_txt = [''note=office'']\<rparr>"

definition printerRegistered :: QtAvahiService where
  \<comment> \<open>\<open>freshService\<close> after \<^verbatim>\<open>registerService("printer", 0.0.0.0, 9100, "_ipp._tcp", {note: office})\<close>\<close>
  "printerRegistered =
     freshService
       \<lparr>m_name := ''printer'', m_hostAddress := IPv4Address 0, m_port := 9100,
        m_serviceType := ''_ipp._tcp'', m_txtRecords := [''note'' \<mapsto> ''office''],
        m_reregisterTimer := \<lparr>interval = 60000, singleShot = True, remaining = Some 60000\<rparr>,
        d_name := ''printer'', d_hostAddress := IPv4Address 0, d_port := 9100,
        d_type := ''_ipp._tcp'', d_txtRecords := [''note'' \<mapsto> ''office''],
        d_group := Some \<lparr>entries = [printerEntry], committed = True\<rparr>,
        d_serviceList := Some [''note=office''],
        avahi_calls := 2,
        log := [DebugRegistering ''printer'' (IPv4Address 0) 9100 ''_ipp._tcp'' (- 1)]\<rparr>"


section \<open>Properties of the operations\<close>

subsection \<open>Unfolding and case analysis\<close>

lemmas avahi_defs =
  avahi_entry_group_new_def avahi_entry_group_is_empty_def avahi_entry_group_reset_def
  avahi_entry_group_add_service_strlst_def avahi_entry_group_commit_def
  avahi_entry_group_update_service_txt_strlst_def

lemmas step_defs =
  clientRunning_def cacheValues_def createGroupIfUnset_def groupIsEmpty_def addService_def
  commitService_def writeLog_def QTimer_start_def QTimer_stop_def

lemmas accessor_defs =
  name_def hostAddress_def port_def serviceType_def txtRecords_def

lemma handleCollision_Suc:
  "handleCollision (Suc fuel) env s =
     registerService fuel env (avahi_alternative_service_name env (d_name s))
       (d_hostAddress s) (d_port s) (d_type s) (d_txtRecords s) False
       (resetService False (writeLog (DebugCollision (avahi_alternative_service_name env (d_name s))) s))"
  by (simp add: handleCollision.simps(2) Let_def accessor_defs resetService_def writeLog_def
      split: option.splits)

lemma registerService_cases [consumes 1, case_names NotRunning AlreadyRegistered AddError Added Collision]:
  assumes "registerService fuel env nm a prt ty recs silent s = Some (r, s')"
  obtains
    (NotRunning) "\<not> clientRunning s" "r = False"
      "s' = writeLog (WarnClientNotAvailable nm prt ty) s"
  | (AlreadyRegistered) "clientRunning s" "\<not> groupIsEmpty (prepared nm a prt ty recs s)"
      "r = False" "s' = writeLog WarnAlreadyRegistered (prepared nm a prt ty recs s)"
  | (AddError) s3 where "clientRunning s" "groupIsEmpty (prepared nm a prt ty recs s)"
      "s3 = addService env nm a prt ty recs silent (prepared nm a prt ty recs s)"
      "d_error s3 \<noteq> 0" "d_error s3 \<noteq> AVAHI_ERR_COLLISION"
      "r = False" "s' = writeLog (WarnError (d_error s3)) s3"
  | (Added) s3 where "clientRunning s" "groupIsEmpty (prepared nm a prt ty recs s)"
      "s3 = addService env nm a prt ty recs silent (prepared nm a prt ty recs s)"
      "d_error s3 = 0" "(r, s') = commitService env s3"
  | (Collision) s3 ok s4 where "clientRunning s" "groupIsEmpty (prepared nm a prt ty recs s)"
      "s3 = addService env nm a prt ty recs silent (prepared nm a prt ty recs s)"
      "d_error s3 = AVAHI_ERR_COLLISION"
      "handleCollision fuel env s3 = Some (ok, s4)"
      "ok \<Longrightarrow> (r, s') = commitService env s4"
      "\<not> ok \<Longrightarrow> r = False \<and> s' = writeLog (WarnError (d_error s4)) s4"
  using assms
  unfolding registerService.simps[of fuel env nm a prt ty recs silent s] Let_def
  by (auto split: if_splits option.splits prod.splits simp: AVAHI_ERR_COLLISION_def)


lemma resetService_fields [simp]:
  "m_state (resetService silent s) = m_state s"
  "d_name (resetService silent s) = d_name s"
  "d_hostAddress (resetService silent s) = d_hostAddress s"
  "d_port (resetService silent s) = d_port s"
  "d_type (resetService silent s) = d_type s"
  "d_txtRecords (resetService silent s) = d_txtRecords s"
  "m_name (resetService silent s) = m_name s"
  "m_hostAddress (resetService silent s) = m_hostAddress s"
  "m_port (resetService silent s) = m_port s"
  "m_serviceType (resetService silent s) = m_serviceType s"
  "m_txtRecords (resetService silent s) = m_txtRecords s"
  "d_error (resetService silent s) = d_error s"
  "d_client (resetService silent s) = d_client s"
  "client_errno (resetService silent s) = client_errno s"
  "avahi_calls (resetService silent s) = avahi_calls s"
  "interval (m_reregisterTimer (resetService silent s)) = interval (m_reregisterTimer s)"
  "singleShot (m_reregisterTimer (resetService silent s)) = singleShot (m_reregisterTimer s)"
  by (simp_all add: resetService_def writeLog_def QTimer_stop_def Let_def split: option.splits)

lemma writeLog_fields [simp]:
  "m_state (writeLog l s) = m_state s"
  "d_name (writeLog l s) = d_name s"
  "d_hostAddress (writeLog l s) = d_hostAddress s"
  "d_port (writeLog l s) = d_port s"
  "d_type (writeLog l s) = d_type s"
  "d_txtRecords (writeLog l s) = d_txtRecords s"
  "m_name (writeLog l s) = m_name s"
  "m_hostAddress (writeLog l s) = m_hostAddress s"
  "m_port (writeLog l s) = m_port s"
  "m_serviceType (writeLog l s) = m_serviceType s"
  "m_txtRecords (writeLog l s) = m_txtRecords s"
  "d_error (writeLog l s) = d_error s"
  "d_group (writeLog l s) = d_group s"
  "d_serviceList (writeLog l s) = d_serviceList s"
  "d_client (writeLog l s) = d_client s"
  "client_errno (writeLog l s) = client_errno s"
  "avahi_calls (writeLog l s) = avahi_calls s"
  "m_reregisterTimer (writeLog l s) = m_reregisterTimer s"
  by (simp_all add: writeLog_def)

lemma cacheValues_fields [simp]:
  "m_state (cacheValues nm a prt ty recs s) = m_state s"
  "d_name (cacheValues nm a prt ty recs s) = nm"
  "d_hostAddress (cacheValues nm a prt ty recs s) = a"
  "d_port (cacheValues nm a prt ty recs s) = prt"
  "d_type (cacheValues nm a prt ty recs s) = ty"
  "d_txtRecords (cacheValues nm a prt ty recs s) = recs"
  "m_name (cacheValues nm a prt ty recs s) = nm"
  "m_hostAddress (cacheValues nm a prt ty recs s) = a"
  "m_port (cacheValues nm a prt ty recs s) = prt"
  "m_serviceType (cacheValues nm a prt ty recs s) = ty"
  "m_txtRecords (cacheValues nm a prt ty recs s) = recs"
  "d_error (cacheValues nm a prt ty recs s) = d_error s"
  "d_group (cacheValues nm a prt ty recs s) = d_group s"
  "d_serviceList (cacheValues nm a prt ty recs s) = d_serviceList s"
  "d_client (cacheValues nm a prt ty recs s) = d_client s"
  "client_errno (cacheValues nm a prt ty recs s) = client_errno s"
  "avahi_calls (cacheValues nm a prt ty recs s) = avahi_calls s"
  "m_reregisterTimer (cacheValues nm a prt ty recs s) = m_reregisterTimer s"
  "log (cacheValues nm a prt ty recs s) = log s"
  by (simp_all add: cacheValues_def)

lemma createGroupIfUnset_fields [simp]:
  "m_state (createGroupIfUnset s) = m_state s"
  "d_name (createGroupIfUnset s) = d_name s"
  "d_hostAddress (createGroupIfUnset s) = d_hostAddress s"
  "d_port (createGroupIfUnset s) = d_port s"
  "d_type (createGroupIfUnset s) = d_type s"
  "d_txtRecords (createGroupIfUnset s) = d_txtRecords s"
  "m_name (createGroupIfUnset s) = m_name s"
  "m_hostAddress (createGroupIfUnset s) = m_hostAddress s"
  "m_port (createGroupIfUnset s) = m_port s"
  "m_serviceType (createGroupIfUnset s) = m_serviceType s"
  "m_txtRecords (createGroupIfUnset s) = m_txtRecords s"
  "d_error (createGroupIfUnset s) = d_error s"
  "d_serviceList (createGroupIfUnset s) = d_serviceList s"
  "d_client (createGroupIfUnset s) = d_client s"
  "client_errno (createGroupIfUnset s) = client_errno s"
  "avahi_calls (createGroupIfUnset s) = avahi_calls s"
  "m_reregisterTimer (createGroupIfUnset s) = m_reregisterTimer s"
  "log (createGroupIfUnset s) = log s"
  by (simp_all add: createGroupIfUnset_def)

lemma clientRunning_simps [simp]:
  "clientRunning (cacheValues nm a prt ty recs s) = clientRunning s"
  "clientRunning (createGroupIfUnset s) = clientRunning s"
  "clientRunning (writeLog l s) = clientRunning s"
  "clientRunning (resetService silent s) = clientRunning s"
  by (simp_all add: clientRunning_def)

lemma d_group_createGroupIfUnset_eq:
  "d_group (createGroupIfUnset s) =
     (case d_group s of None \<Rightarrow> Some avahi_entry_group_new | Some g \<Rightarrow> Some g)"
  by (simp add: createGroupIfUnset_def split: option.splits)

lemma addService_fields [simp]:
  "m_state (addService env nm a prt ty recs silent s) = m_state s"
  "d_name (addService env nm a prt ty recs silent s) = d_name s"
  "d_hostAddress (addService env nm a prt ty recs silent s) = d_hostAddress s"
  "d_port (addService env nm a prt ty recs silent s) = d_port s"
  "d_type (addService env nm a prt ty recs silent s) = d_type s"
  "d_txtRecords (addService env nm a prt ty recs silent s) = d_txtRecords s"
  "m_name (addService env nm a prt ty recs silent s) = m_name s"
  "m_hostAddress (addService env nm a prt ty recs silent s) = m_hostAddress s"
  "m_port (addService env nm a prt ty recs silent s) = m_port s"
  "m_serviceType (addService env nm a prt ty recs silent s) = m_serviceType s"
  "m_txtRecords (addService env nm a prt ty recs silent s) = m_txtRecords s"
  "d_error (addService env nm a prt ty recs silent s) = avahi_reply env (avahi_calls s)"
  "d_client (addService env nm a prt ty recs silent s) = d_client s"
  "avahi_calls (addService env nm a prt ty recs silent s) = Suc (avahi_calls s)"
  "m_reregisterTimer (addService env nm a prt ty recs silent s) = m_reregisterTimer s"
  by (simp_all add: addService_def avahi_entry_group_add_service_strlst_def writeLog_def Let_def)

lemma commitService_fields:
  assumes "commitService env s = (r, s')"
  shows "m_state s' = m_state s"
    and "d_name s' = d_name s" and "d_hostAddress s' = d_hostAddress s"
    and "d_port s' = d_port s" and "d_type s' = d_type s"
    and "d_txtRecords s' = d_txtRecords s"
    and "m_name s' = m_name s" and "m_hostAddress s' = m_hostAddress s"
    and "m_port s' = m_port s" and "m_serviceType s' = m_serviceType s"
    and "m_txtRecords s' = m_txtRecords s"
    and "d_client s' = d_client s"
    and "d_error s' = avahi_reply env (avahi_calls s)"
    and "r \<longleftrightarrow> d_error s' = 0"
    and "interval (m_reregisterTimer s') = interval (m_reregisterTimer s)"
    and "singleShot (m_reregisterTimer s') = singleShot (m_reregisterTimer s)"
    and "r \<Longrightarrow> remaining (m_reregisterTimer s') = Some (interval (m_reregisterTimer s))"
    and "\<not> r \<Longrightarrow> m_reregisterTimer s' = m_reregisterTimer s"
  using assms
  by (auto simp: commitService_def avahi_entry_group_commit_def writeLog_def QTimer_start_def
      Let_def split: if_splits)


lemma registerService_returns_induct
  [consumes 1, case_names NotRunning AlreadyRegistered AddError Added Collision]:
  assumes ret: "registerService fuel env nm a prt ty recs silent s = Some (r, s')"
    and notRunning:
      "\<And>nm a prt ty recs s.
         \<not> clientRunning s \<Longrightarrow>
         P nm a prt ty recs s False (writeLog (WarnClientNotAvailable nm prt ty) s)"
    and alreadyRegistered:
      "\<And>nm a prt ty recs s.
         clientRunning s \<Longrightarrow> \<not> groupIsEmpty (prepared nm a prt ty recs s) \<Longrightarrow>
         P nm a prt ty recs s False (writeLog WarnAlreadyRegistered (prepared nm a prt ty recs s))"
    and addError:
      "\<And>nm a prt ty recs silent s s3.
         clientRunning s \<Longrightarrow> groupIsEmpty (prepared nm a prt ty recs s) \<Longrightarrow>
         s3 = addService env nm a prt ty recs silent (prepared nm a prt ty recs s) \<Longrightarrow>
         d_error s3 \<noteq> 0 \<Longrightarrow> d_error s3 \<noteq> AVAHI_ERR_COLLISION \<Longrightarrow>
         P nm a prt ty recs s False (writeLog (WarnError (d_error s3)) s3)"
    and added:
      "\<And>nm a prt ty recs silent s s3 r s'.
         clientRunning s \<Longrightarrow> groupIsEmpty (prepared nm a prt ty recs s) \<Longrightarrow>
         s3 = addService env nm a prt ty recs silent (prepared nm a prt ty recs s) \<Longrightarrow>
         d_error s3 = 0 \<Longrightarrow> commitService env s3 = (r, s') \<Longrightarrow>
         P nm a prt ty recs s r s'"
    and collision:
      "\<And>nm a prt ty recs silent s s3 ok s4 r s'.
         clientRunning s \<Longrightarrow> groupIsEmpty (prepared nm a prt ty recs s) \<Longrightarrow>
         s3 = addService env nm a prt ty recs silent (prepared nm a prt ty recs s) \<Longrightarrow>
         d_error s3 = AVAHI_ERR_COLLISION \<Longrightarrow>
         P (avahi_alternative_service_name env nm) a prt ty recs (retryState env s3) ok s4 \<Longrightarrow>
         (if ok then commitService env s4 = (r, s')
          else r = False \<and> s' = writeLog (WarnError (d_error s4)) s4) \<Longrightarrow>
         P nm a prt ty recs s r s'"
  shows "P nm a prt ty recs s r s'"
  using ret
proof (induction fuel arbitrary: nm a prt ty recs silent s r s')
  case 0
  from "0.prems" show ?case
  proof (cases rule: registerService_cases)
    case NotRunning
    then show ?thesis using notRunning by simp
  next
    case AlreadyRegistered
    then show ?thesis using alreadyRegistered by simp
  next
    case (AddError s3)
    then show ?thesis using addError by simp
  next
    case (Added s3)
    then show ?thesis using added[of s nm a prt ty recs s3 silent r s'] by simp
  next
    case (Collision s3 ok s4)
    then show ?thesis by simp
  qed
next
  case (Suc fuel)
  from Suc.prems show ?case
  proof (cases rule: registerService_cases)
    case NotRunning
    then show ?thesis using notRunning by simp
  next
    case AlreadyRegistered
    then show ?thesis using alreadyRegistered by simp
  next
    case (AddError s3)
    then show ?thesis using addError by simp
  next
    case (Added s3)
    then show ?thesis using added[of s nm a prt ty recs s3 silent r s'] by simp
  next
    case (Collision s3 ok s4)
    have fields: "d_name s3 = nm" "d_hostAddress s3 = a" "d_port s3 = prt" "d_type s3 = ty"
      "d_txtRecords s3 = recs"
      using Collision(3) by simp_all
    from Collision(5) have
      "registerService fuel env (avahi_alternative_service_name env nm) a prt ty recs False
         (retryState env s3) = Some (ok, s4)"
      unfolding handleCollision_Suc fields .
    then have "P (avahi_alternative_service_name env nm) a prt ty recs (retryState env s3) ok s4"
      by (rule Suc.IH)
    moreover have "if ok then commitService env s4 = (r, s')
          else r = False \<and> s' = writeLog (WarnError (d_error s4)) s4"
      using Collision(6,7) by (cases ok) simp_all
    ultimately show ?thesis
      using collision[OF Collision(1,2,3,4)] by blast
  qed
qed

lemma registerService_m_state:
  "registerService fuel env nm a prt ty recs silent s = Some (r, s') \<Longrightarrow> m_state s' = m_state s"
  by (induction rule: registerService_returns_induct)
     (auto dest: commitService_fields(1) split: if_splits)

lemma registerService_timer:
  assumes "registerService fuel env nm a prt ty recs silent s = Some (r, s')"
  shows "interval (m_reregisterTimer s') = interval (m_reregisterTimer s) \<and>
         singleShot (m_reregisterTimer s') = singleShot (m_reregisterTimer s) \<and>
         (r \<longrightarrow> remaining (m_reregisterTimer s') = Some (interval (m_reregisterTimer s)))"
  using assms
proof (induction rule: registerService_returns_induct)
  case (Added nm a prt ty recs silent s s3 r s')
  then show ?case by (auto dest: commitService_fields(15,16,17))
next
  case (Collision nm a prt ty recs silent s s3 ok s4 r s')
  then show ?case
    by (auto dest: commitService_fields(15,16,17) split: if_splits)
qed simp_all

lemma registerService_restarts_timer:
  assumes "registerService fuel env nm a prt ty recs silent s = Some (True, s')"
  shows "m_reregisterTimer s' = QTimer_start (m_reregisterTimer s)"
  using registerService_timer[OF assms] by (simp add: QTimer_start_def)


lemma groupIsEmpty_prepared [simp]:
  "groupIsEmpty (prepared nm a prt ty recs s) = groupIsEmpty (createGroupIfUnset s)"
  by (simp add: groupIsEmpty_def d_group_createGroupIfUnset_eq)

lemma d_group_prepared [simp]:
  "d_group (prepared nm a prt ty recs s) = d_group (createGroupIfUnset s)"
  by (simp add: d_group_createGroupIfUnset_eq)

lemma d_group_addService:
  "d_group (addService env nm a prt ty recs silent s) =
     (if avahi_reply env (avahi_calls s) = 0
      then map_option (\<lambda>g. g\<lparr>entries := entries g @
             [\<lparr>e_interface = interfaceIndexFor env a, e_protocol = protocolOf a,
               e_name = d_name s, e_type = d_type s, e_port = d_port s,
               e_txt = createTxtList env recs\<rparr>]\<rparr>) (d_group s)
      else d_group s)"
  by (simp add: addService_def avahi_entry_group_add_service_strlst_def writeLog_def Let_def)

lemma d_group_commitService:
  "commitService env s = (r, s') \<Longrightarrow>
   d_group s' = (if r then map_option (\<lambda>g. g\<lparr>committed := True\<rparr>) (d_group s) else d_group s)"
  by (auto simp: commitService_def avahi_entry_group_commit_def writeLog_def Let_def
      split: if_splits)

lemma resetService_group:
  "d_group s = Some g \<Longrightarrow>
   d_group (resetService silent s) = Some (avahi_entry_group_reset g) \<and>
   remaining (m_reregisterTimer (resetService silent s)) = None \<and>
   d_serviceList (resetService silent s) = None"
  by (simp add: resetService_def writeLog_def QTimer_stop_def Let_def)

lemma resetService_no_group:
  "d_group s = None \<Longrightarrow> resetService silent s = writeLog WarnNoGroup s"
  by (simp add: resetService_def)

lemma ex_funpow_id: "\<exists>k. x = (f ^^ k) x"
  by (rule exI[of _ 0]) simp

lemma registerService_descriptor:
  assumes "registerService fuel env nm a prt ty recs silent s = Some (r, s')"
  shows "clientRunning s \<longrightarrow>
         m_hostAddress s' = a \<and> d_hostAddress s' = a \<and> m_port s' = prt \<and> d_port s' = prt \<and>
         m_serviceType s' = ty \<and> d_type s' = ty \<and> m_txtRecords s' = recs \<and>
         d_txtRecords s' = recs \<and>
         (\<exists>k. m_name s' = (avahi_alternative_service_name env ^^ k) nm \<and>
              d_name s' = (avahi_alternative_service_name env ^^ k) nm)"
  using assms
proof (induction rule: registerService_returns_induct)
  case (NotRunning nm a prt ty recs s)
  then show ?case by simp
next
  case (AlreadyRegistered nm a prt ty recs s)
  then show ?case by (simp add: ex_funpow_id)
next
  case (AddError nm a prt ty recs silent s s3)
  then show ?case by (simp add: ex_funpow_id)
next
  case (Added nm a prt ty recs silent s s3 r s')
  with commitService_fields[OF Added(5)] show ?case
    by (simp add: ex_funpow_id)
next
  case (Collision nm a prt ty recs silent s s3 ok s4 r s')
  have run: "clientRunning (retryState env s3)"
    using Collision.hyps(1,3) by (simp add: clientRunning_def)
  with Collision.IH obtain k where
    k: "m_name s4 = (avahi_alternative_service_name env ^^ k) (avahi_alternative_service_name env nm)"
       "d_name s4 = (avahi_alternative_service_name env ^^ k) (avahi_alternative_service_name env nm)"
    and rest: "m_hostAddress s4 = a" "d_hostAddress s4 = a" "m_port s4 = prt" "d_port s4 = prt"
      "m_serviceType s4 = ty" "d_type s4 = ty" "m_txtRecords s4 = recs" "d_txtRecords s4 = recs"
    by blast
  have k': "m_name s4 = (avahi_alternative_service_name env ^^ Suc k) nm"
       "d_name s4 = (avahi_alternative_service_name env ^^ Suc k) nm"
    using k by (simp_all add: funpow_swap1)
  show ?case
  proof (cases ok)
    case True
    with Collision.hyps(5) have c: "commitService env s4 = (r, s')" by simp
    show ?thesis using commitService_fields[OF c] rest k' by (simp del: funpow.simps) blast
  next
    case False
    with Collision.hyps(5) have "s' = writeLog (WarnError (d_error s4)) s4" by simp
    then show ?thesis using rest k' by (simp del: funpow.simps) blast
  qed
qed

lemma registerService_name_no_collision:
  assumes "registerService fuel env nm a prt ty recs silent s = Some (r, s')"
    and "clientRunning s"
    and "\<not> (groupIsEmpty (createGroupIfUnset s) \<and> avahi_reply env (avahi_calls s) = AVAHI_ERR_COLLISION)"
  shows "m_name s' = nm \<and> d_name s' = nm"
  using assms
  by (cases rule: registerService_cases) (auto dest: commitService_fields(2,7)[OF sym])


lemma groupIsEmpty_retryState:
  "d_group s \<noteq> None \<Longrightarrow> groupIsEmpty (createGroupIfUnset (retryState env s))"
  by (auto simp: groupIsEmpty_def createGroupIfUnset_def resetService_def writeLog_def Let_def
      avahi_entry_group_reset_def avahi_entry_group_is_empty_def)

lemma d_group_createGroupIfUnset: "d_group (createGroupIfUnset s) \<noteq> None"
  by (simp add: createGroupIfUnset_def)

lemma d_group_addService_Some:
  "d_group s \<noteq> None \<Longrightarrow> d_group (addService env nm a prt ty recs silent s) \<noteq> None"
  by (auto simp: d_group_addService)

lemma registerService_failure_error:
  assumes "registerService fuel env nm a prt ty recs silent s = Some (r, s')"
  shows "clientRunning s \<and> groupIsEmpty (createGroupIfUnset s) \<and> \<not> r \<longrightarrow> d_error s' \<noteq> 0"
  using assms
proof (induction rule: registerService_returns_induct)
  case (Added nm a prt ty recs silent s s3 r s')
  then show ?case using commitService_fields(14)[OF Added(5)] by simp
next
  case (Collision nm a prt ty recs silent s s3 ok s4 r s')
  have "clientRunning (retryState env s3)"
    using Collision.hyps(1,3) by (simp add: clientRunning_def)
  moreover have "groupIsEmpty (createGroupIfUnset (retryState env s3))"
    using Collision.hyps(3)
    by (intro groupIsEmpty_retryState) (simp add: d_group_addService_Some d_group_createGroupIfUnset)
  ultimately have ih: "\<not> ok \<Longrightarrow> d_error s4 \<noteq> 0" using Collision.IH by simp
  show ?case
  proof (cases ok)
    case True
    with Collision.hyps(5) have c: "commitService env s4 = (r, s')" by simp
    show ?thesis using commitService_fields(14)[OF c] by simp
  next
    case False
    with Collision.hyps(5) ih show ?thesis by simp
  qed
qed simp_all

lemma registerService_not_attempted:
  assumes "registerService fuel env nm a prt ty recs silent s = Some (r, s')"
    and "\<not> (clientRunning s \<and> groupIsEmpty (createGroupIfUnset s))"
  shows "r = False \<and> d_error s' = d_error s \<and> d_group s' = d_group s \<and>
         m_reregisterTimer s' = m_reregisterTimer s"
  using assms
  by (cases rule: registerService_cases)
     (auto simp: groupIsEmpty_def d_group_createGroupIfUnset_eq avahi_entry_group_new_def
        avahi_entry_group_is_empty_def split: if_splits option.splits)

lemma registerService_failure_not_committed:
  assumes "registerService fuel env nm a prt ty recs silent s = Some (False, s')"
    and "avahi_reply env (avahi_calls s) \<noteq> AVAHI_ERR_COLLISION"
    and "d_group s' = Some g'" and "committed g'"
  shows "\<exists>g. d_group s = Some g \<and> committed g"
  using assms
  by (cases rule: registerService_cases)
     (auto simp: d_group_createGroupIfUnset_eq avahi_entry_group_new_def d_group_addService
        dest!: d_group_commitService[OF sym] split: if_splits option.splits)

lemma registerService_timerGuarded:
  assumes "registerService fuel env nm a prt ty recs silent s = Some (r, s')"
  shows "(r \<longrightarrow> announced s') \<and> (timerGuarded s \<longrightarrow> timerGuarded s')"
  using assms
proof (induction rule: registerService_returns_induct)
  case (NotRunning nm a prt ty recs s)
  then show ?case by (simp add: timerGuarded_def announced_def)
next
  case (AlreadyRegistered nm a prt ty recs s)
  then show ?case
    by (auto simp: timerGuarded_def announced_def groupIsEmpty_def d_group_createGroupIfUnset_eq
        avahi_entry_group_new_def avahi_entry_group_is_empty_def split: if_splits option.splits)
next
  case (AddError nm a prt ty recs silent s s3)
  then show ?case
    by (auto simp: timerGuarded_def announced_def groupIsEmpty_def d_group_createGroupIfUnset_eq
        avahi_entry_group_new_def avahi_entry_group_is_empty_def d_group_addService
        split: if_splits option.splits)
next
  case (Added nm a prt ty recs silent s s3 r s')
  note c = commitService_fields(15,16,17,18)[OF Added(5)] d_group_commitService[OF Added(5)]
  from Added(1-4) c show ?case
    by (auto simp: timerGuarded_def announced_def groupIsEmpty_def d_group_createGroupIfUnset_eq
        avahi_entry_group_new_def avahi_entry_group_is_empty_def d_group_addService
        split: if_splits option.splits)
next
  case (Collision nm a prt ty recs silent s s3 ok s4 r s')
  have "d_group s3 \<noteq> None"
    using Collision.hyps(3) by (simp add: d_group_addService_Some d_group_createGroupIfUnset)
  then have "remaining (m_reregisterTimer (retryState env s3)) = None"
    using resetService_group[of "writeLog (DebugCollision (avahi_alternative_service_name env (d_name s3))) s3"]
    by auto
  then have "timerGuarded (retryState env s3)"
    by (simp add: timerGuarded_def isActive_def)
  with Collision.IH have ih: "ok \<Longrightarrow> announced s4" "timerGuarded s4" by simp_all
  show ?case
  proof (cases ok)
    case True
    with Collision.hyps(5) have c: "commitService env s4 = (r, s')" by simp
    note f = commitService_fields(17,18)[OF c] d_group_commitService[OF c]
    from ih(1)[OF True] ih(2) f show ?thesis
      by (cases r) (auto simp: timerGuarded_def announced_def isActive_def split: option.splits)
  next
    case False
    with Collision.hyps(5) ih(2) show ?thesis
      by (auto simp: timerGuarded_def announced_def split: if_splits)
  qed
qed

subsection \<open>Facts about \<^verbatim>\<open>handleCollision\<close>, \<^verbatim>\<open>updateTxtRecord\<close>, \<^verbatim>\<open>onStateChanged\<close> and the timeout\<close>

lemma handleCollision_returns:
  assumes "handleCollision fuel env s = Some (r, s')"
  obtains fuel' where "fuel = Suc fuel'"
    and "registerService fuel' env (avahi_alternative_service_name env (d_name s))
           (d_hostAddress s) (d_port s) (d_type s) (d_txtRecords s) False (retryState env s)
         = Some (r, s')"
  using assms by (cases fuel) (simp_all add: handleCollision_Suc)

lemma handleCollision_m_state:
  "handleCollision fuel env s = Some (r, s') \<Longrightarrow> m_state s' = m_state s"
  by (erule handleCollision_returns) (auto dest: registerService_m_state)

lemma handleCollision_timer:
  "handleCollision fuel env s = Some (r, s') \<Longrightarrow>
   interval (m_reregisterTimer s') = interval (m_reregisterTimer s) \<and>
   singleShot (m_reregisterTimer s') = singleShot (m_reregisterTimer s)"
  by (erule handleCollision_returns) (auto dest: registerService_timer)

lemma updateTxtRecord_frame:
  assumes "updateTxtRecord env recs s = (r, s')"
  shows "m_reregisterTimer s' = m_reregisterTimer s"
    and "announced s' = announced s"
    and "d_txtRecords s' = d_txtRecords s"
    and "m_state s' = m_state s"
  using assms
  by (auto simp: updateTxtRecord_def avahi_entry_group_update_service_txt_strlst_def
      writeLog_def announced_def Let_def split: if_splits option.splits)

lemma onStateChanged_timer:
  assumes "onStateChanged fuel env st s = Some s'"
  shows "interval (m_reregisterTimer s') = interval (m_reregisterTimer s) \<and>
         singleShot (m_reregisterTimer s') = singleShot (m_reregisterTimer s)"
proof (cases "m_state s \<noteq> st \<and> st = QtAvahiServiceStateCollision")
  case True
  with assms obtain r where
    "handleCollision fuel env (s\<lparr>m_state := QtAvahiServiceStateCollision\<rparr>) = Some (r, s')"
    by (auto simp: onStateChanged_def)
  from handleCollision_timer[OF this] show ?thesis by simp
next
  case False
  with assms show ?thesis
    by (cases st) (auto simp: onStateChanged_def split: if_splits)
qed

lemma timeout_returns:
  assumes "timeout fuel env s = Some s'"
  obtains r where
    "registerService fuel env (m_name s) (m_hostAddress s) (m_port s) (m_serviceType s)
       (m_txtRecords s) True
       (resetService True (s\<lparr>m_reregisterTimer := QTimer_fired (m_reregisterTimer s)\<rparr>))
     = Some (r, s')"
  using assms by (auto simp: timeout_def Let_def)

subsection \<open>The timer of a reachable configuration\<close>

lemma reachable_timer_config:
  "reachable env s \<Longrightarrow>
   interval (m_reregisterTimer s) = 60000 \<and> singleShot (m_reregisterTimer s)"
proof (induction rule: reachable.induct)
  case (r_constructed s)
  then show ?case by (simp add: constructed_def)
next
  case (r_register s fuel nm a prt ty recs silent r s')
  with registerService_timer[OF r_register(2)] show ?case by simp
next
  case (r_reset s silent)
  then show ?case by simp
next
  case (r_update s recs r s')
  with updateTxtRecord_frame(1)[OF r_update(2)] show ?case by simp
next
  case (r_stateChanged s fuel st s')
  with onStateChanged_timer[OF r_stateChanged(2)] show ?case by simp
next
  case (r_timeout s fuel s')
  from r_timeout(3) obtain r where
    "registerService fuel env (m_name s) (m_hostAddress s) (m_port s) (m_serviceType s)
       (m_txtRecords s) True
       (resetService True (s\<lparr>m_reregisterTimer := QTimer_fired (m_reregisterTimer s)\<rparr>))
     = Some (r, s')"
    by (rule timeout_returns)
  from registerService_timer[OF this] r_timeout.IH show ?case
    by (simp add: QTimer_fired_def QTimer_stop_def QTimer_start_def)
next
  case (r_elapse s t d)
  then show ?case by simp
next
  case (r_client s c e)
  then show ?case by simp
qed

subsection \<open>The concrete configuration, evaluated\<close>

lemma example_register:
  "registerService 0 homeNetwork ''printer'' (IPv4Address 0) 9100 ''_ipp._tcp''
     [''note'' \<mapsto> ''office''] False freshService = Some (True, printerRegistered)"
  by (simp add: registerService.simps step_defs avahi_defs Let_def interfaceIndexFor_def
      protocolOf_def homeNetwork_def freshService_def printerRegistered_def printerEntry_def
      AVAHI_IF_UNSPEC_def AVAHI_PROTO_INET_def AVAHI_ERR_COLLISION_def)

lemma example_collision_retry:
  "handleCollision (Suc 0) homeNetwork (printerRegistered\<lparr>m_state := QtAvahiServiceStateCollision\<rparr>) =
   Some (True, printerRegistered
     \<lparr>m_name := ''printer #2'', d_name := ''printer #2'',
      m_state := QtAvahiServiceStateCollision,
      d_group := Some \<lparr>entries = [printerEntry\<lparr>e_name := ''printer #2''\<rparr>], committed = True\<rparr>,
      avahi_calls := 4,
      log := [DebugRegistering ''printer'' (IPv4Address 0) 9100 ''_ipp._tcp'' (- 1),
              DebugCollision ''printer #2'', DebugUnregistering,
              DebugRegistering ''printer #2'' (IPv4Address 0) 9100 ''_ipp._tcp'' (- 1)]\<rparr>)"
  by (simp add: handleCollision_Suc registerService.simps resetService_def step_defs avahi_defs
      Let_def interfaceIndexFor_def protocolOf_def homeNetwork_def freshService_def
      printerRegistered_def printerEntry_def
      AVAHI_IF_UNSPEC_def AVAHI_PROTO_INET_def AVAHI_ERR_COLLISION_def)

subsection \<open>Collision handling, seen from outside\<close>


lemma registerService_on_collision:
  assumes "clientRunning s" and "groupIsEmpty (createGroupIfUnset s)"
    and "avahi_reply env (avahi_calls s) = AVAHI_ERR_COLLISION"
  shows "registerService fuel env nm a prt ty recs silent s =
     (case handleCollision fuel env
             (addService env nm a prt ty recs silent (prepared nm a prt ty recs s)) of
        None \<Rightarrow> None
      | Some (ok, s4) \<Rightarrow>
          if ok then Some (commitService env s4)
          else Some (False, writeLog (WarnError (d_error s4)) s4))"
  using assms
  by (simp add: registerService.simps[of fuel env nm a prt ty recs silent s] Let_def
      AVAHI_ERR_COLLISION_def split: option.splits)

subsection \<open>The running timer and the group\<close>

lemma resetService_timerGuarded:
  "timerGuarded s \<Longrightarrow> timerGuarded (resetService silent s)"
  by (cases "d_group s")
     (auto simp: timerGuarded_def isActive_def announced_def resetService_no_group
        dest: resetService_group[where silent = silent])

lemma retryState_timerGuarded:
  "timerGuarded s \<Longrightarrow> timerGuarded (retryState env s)"
  by (rule resetService_timerGuarded) (simp add: timerGuarded_def announced_def)

lemma handleCollision_timerGuarded:
  assumes "handleCollision fuel env s = Some (r, s')" and "timerGuarded s"
  shows "timerGuarded s'"
  using assms(1)
proof (rule handleCollision_returns)
  fix fuel'
  assume "registerService fuel' env (avahi_alternative_service_name env (d_name s))
           (d_hostAddress s) (d_port s) (d_type s) (d_txtRecords s) False (retryState env s)
         = Some (r, s')"
  from registerService_timerGuarded[OF this] retryState_timerGuarded[OF assms(2)]
  show ?thesis by simp
qed

lemma reachable_timerGuarded: "reachable env s \<Longrightarrow> timerGuarded s"
proof (induction rule: reachable.induct)
  case (r_constructed s)
  then show ?case by (simp add: constructed_def timerGuarded_def isActive_def)
next
  case (r_register s fuel nm a prt ty recs silent r s')
  with registerService_timerGuarded[OF r_register(2)] show ?case by simp
next
  case (r_reset s silent)
  then show ?case by (simp add: resetService_timerGuarded)
next
  case (r_update s recs r s')
  with updateTxtRecord_frame(1,2)[OF r_update(2)] show ?case by (simp add: timerGuarded_def)
next
  case (r_stateChanged s fuel st s')
  show ?case
  proof (cases "m_state s \<noteq> st \<and> st = QtAvahiServiceStateCollision")
    case True
    with r_stateChanged(2) obtain r where
      hc: "handleCollision fuel env (s\<lparr>m_state := QtAvahiServiceStateCollision\<rparr>) = Some (r, s')"
      by (auto simp: onStateChanged_def)
    have "timerGuarded (s\<lparr>m_state := QtAvahiServiceStateCollision\<rparr>)"
      using r_stateChanged.IH by (simp add: timerGuarded_def announced_def)
    with hc show ?thesis by (rule handleCollision_timerGuarded)
  next
    case False
    with r_stateChanged(2) have "s' = s \<or> s' = s\<lparr>m_state := st\<rparr>"
      by (cases st) (auto simp: onStateChanged_def split: if_splits)
    with r_stateChanged.IH show ?thesis by (auto simp: timerGuarded_def announced_def)
  qed
next
  case (r_timeout s fuel s')
  from r_timeout(3) obtain r where ret:
    "registerService fuel env (m_name s) (m_hostAddress s) (m_port s) (m_serviceType s)
       (m_txtRecords s) True
       (resetService True (s\<lparr>m_reregisterTimer := QTimer_fired (m_reregisterTimer s)\<rparr>))
     = Some (r, s')"
    by (rule timeout_returns)
  from r_timeout.IH r_timeout(2) obtain g where "d_group s = Some g"
    by (auto simp: timerGuarded_def isActive_def announced_def split: option.splits)
  then have "remaining (m_reregisterTimer
      (resetService True (s\<lparr>m_reregisterTimer := QTimer_fired (m_reregisterTimer s)\<rparr>))) = None"
    using resetService_group[of "s\<lparr>m_reregisterTimer := QTimer_fired (m_reregisterTimer s)\<rparr>" g True]
    by simp
  then have "timerGuarded
      (resetService True (s\<lparr>m_reregisterTimer := QTimer_fired (m_reregisterTimer s)\<rparr>))"
    by (simp add: timerGuarded_def isActive_def)
  with registerService_timerGuarded[OF ret] show ?case by simp
next
  case (r_elapse s t d)
  then show ?case by (simp add: timerGuarded_def isActive_def announced_def)
next
  case (r_client s c e)
  then show ?case by (simp add: timerGuarded_def announced_def)
qed

subsection \<open>More of the concrete configuration\<close>

text \<open>
  A second \<^verbatim>\<open>registerService\<close> without a reset; a daemon that refuses the add-service call;
  and a collision on the add-service call, after which the retry succeeds and the commit
  in the outer call is refused: the call returns false although the renamed entry is
  committed and the timer runs.
\<close>

lemma example_register_again:
  "registerService 0 homeNetwork ''printer2'' (IPv4Address 0xC0A8010A) 631 ''_http._tcp''
     Map.empty False printerRegistered =
   Some (False, printerRegistered
     \<lparr>m_name := ''printer2'', m_hostAddress := IPv4Address 0xC0A8010A, m_port := 631,
      m_serviceType := ''_http._tcp'', m_txtRecords := Map.empty,
      d_name := ''printer2'', d_hostAddress := IPv4Address 0xC0A8010A, d_port := 631,
      d_type := ''_http._tcp'', d_txtRecords := Map.empty,
      log := [DebugRegistering ''printer'' (IPv4Address 0) 9100 ''_ipp._tcp'' (- 1),
              WarnAlreadyRegistered]\<rparr>)"
  by (simp add: registerService.simps step_defs avahi_defs Let_def
      homeNetwork_def freshService_def printerRegistered_def printerEntry_def)

lemma example_register_refused:
  "registerService 0 refusingDaemon ''printer'' (IPv4Address 0) 9100 ''_ipp._tcp''
     [''note'' \<mapsto> ''office''] False freshService =
   Some (False, freshService
     \<lparr>m_name := ''printer'', m_hostAddress := IPv4Address 0, m_port := 9100,
      m_serviceType := ''_ipp._tcp'', m_txtRecords := [''note'' \<mapsto> ''office''],
      d_name := ''printer'', d_hostAddress := IPv4Address 0, d_port := 9100,
      d_type := ''_ipp._tcp'', d_txtRecords := [''note'' \<mapsto> ''office''],
      d_group := Some \<lparr>entries = [], committed = False\<rparr>,
      d_serviceList := Some [''note=office''],
      d_error := - 1, client_errno := - 1, avahi_calls := 1,
      log := [DebugRegistering ''printer'' (IPv4Address 0) 9100 ''_ipp._tcp'' (- 1),
              WarnError (- 1)]\<rparr>)"
  by (simp add: registerService.simps step_defs avahi_defs Let_def interfaceIndexFor_def
      protocolOf_def refusingDaemon_def homeNetwork_def freshService_def
      AVAHI_IF_UNSPEC_def AVAHI_PROTO_INET_def AVAHI_ERR_COLLISION_def)

lemma example_commit_after_retry:
  "map_option (\<lambda>(r, s). (r, name s, d_group s, m_reregisterTimer s, d_error s))
     (registerService (Suc 0) collidingOnce ''printer'' (IPv4Address 0) 9100 ''_ipp._tcp''
        [''note'' \<mapsto> ''office''] False freshService) =
   Some (False, ''printer #2'',
         Some \<lparr>entries = [printerEntry\<lparr>e_name := ''printer #2''\<rparr>], committed = True\<rparr>,
         \<lparr>interval = 60000, singleShot = True, remaining = Some 60000\<rparr>, - 2)"
  by (simp add: handleCollision_Suc registerService.simps resetService_def step_defs avahi_defs
      Let_def interfaceIndexFor_def protocolOf_def collidingOnce_def homeNetwork_def
      freshService_def printerEntry_def name_def
      AVAHI_IF_UNSPEC_def AVAHI_PROTO_INET_def AVAHI_ERR_COLLISION_def)

lemma example_reachable: "reachable homeNetwork printerRegistered"
proof -
  have "reachable homeNetwork freshService"
    by (rule r_constructed) (simp add: constructed_def freshService_def)
  then show ?thesis using example_register by (rule r_register)
qed

subsection \<open>What the interface loops compute\<close>

text \<open>
  The inner loop yields the index of its interface as soon as one entry holds the
  address; the outer loop keeps the result of the last interface that did. The two
  readings agree when at most one interface holds the address.
\<close>

lemma scanAddressEntries_eq:
  "scanAddressEntries inSub a idx es ifIndex =
     (if list_ex (inSub a) es then idx else ifIndex)"
  by (induction es) auto

lemma find_snoc:
  "find P (xs @ [x]) = (case find P xs of None \<Rightarrow> (if P x then Some x else None) | Some y \<Rightarrow> Some y)"
  by (induction xs) auto

lemma scanInterfaces_eq:
  "scanInterfaces inSub a ifs ifIndex =
     (case find (\<lambda>i. list_ex (inSub a) (addressEntries i)) (rev ifs) of
        None \<Rightarrow> ifIndex
      | Some i \<Rightarrow> index i)"
  by (induction ifs arbitrary: ifIndex)
     (auto simp: scanAddressEntries_eq find_snoc split: option.splits)

lemma interfaceIndexFor_last_match:
  "interfaceIndexFor env a =
     (if a = IPv4Address 0 then AVAHI_IF_UNSPEC
      else case find (\<lambda>i. list_ex (hostInSubnet env a) (addressEntries i))
                  (rev (allInterfaces env)) of
             None \<Rightarrow> AVAHI_IF_UNSPEC
           | Some i \<Rightarrow> index i)"
  by (simp add: interfaceIndexFor_def scanInterfaces_eq)

lemma find_as_filter:
  "find P xs = (case filter P xs of [] \<Rightarrow> None | x # _ \<Rightarrow> Some x)"
  by (induction xs) auto

lemma interfaceIndexFor_agrees_when_unambiguous:
  assumes "length (filter (\<lambda>i. list_ex (hostInSubnet env a) (addressEntries i))
                     (allInterfaces env)) \<le> 1"
  shows "interfaceIndexFor env a = spec_firstMatchingInterface env a"
proof -
  let ?P = "\<lambda>i. list_ex (hostInSubnet env a) (addressEntries i)"
  from assms have "filter ?P (allInterfaces env) = [] \<or>
      (\<exists>x. filter ?P (allInterfaces env) = [x])"
    by (cases "filter ?P (allInterfaces env)") (auto simp: length_Suc_conv)
  then have "find ?P (rev (allInterfaces env)) = find ?P (allInterfaces env)"
    by (auto simp: find_as_filter[of ?P "rev (allInterfaces env)"]
        find_as_filter[of ?P "allInterfaces env"] rev_filter[symmetric])
  then show ?thesis
    by (simp add: interfaceIndexFor_last_match spec_firstMatchingInterface_def)
qed

subsection \<open>What \<^verbatim>\<open>updateTxtRecord\<close> stores\<close>

text \<open>
  Without a group the call fails and changes nothing. With a group it succeeds exactly
  when the daemon accepts the update, and it stores the new records in \<open>m_txtRecords\<close>
  either way; the copy behind the accessor \<^verbatim>\<open>txtRecords()\<close> is never written.
\<close>

lemma updateTxtRecord_no_group:
  "d_group s = None \<Longrightarrow> updateTxtRecord env recs s = (False, s)"
  by (simp add: updateTxtRecord_def)

lemma updateTxtRecord_result:
  "d_group s \<noteq> None \<Longrightarrow>
   fst (updateTxtRecord env recs s) = (avahi_reply env (avahi_calls s) = 0) \<and>
   m_txtRecords (snd (updateTxtRecord env recs s)) = recs"
  by (auto simp: updateTxtRecord_def avahi_entry_group_update_service_txt_strlst_def
      writeLog_def Let_def)

lemma updateTxtRecord_accessor:
  "txtRecords (snd (updateTxtRecord env recs s)) = txtRecords s"
  by (simp add: updateTxtRecord_def avahi_entry_group_update_service_txt_strlst_def
      writeLog_def txtRecords_def Let_def)

subsection \<open>The retry bound\<close>

text \<open>
  Each retry consumes one reply of the daemon before the next add-service call. A call
  returns as soon as the bound allows for the collisions the daemon reports in a row, and
  with a daemon that reports a collision for ever it returns for no bound: the recursion
  of the code has no end then.
\<close>

lemma avahi_calls_retryState [simp]:
  "avahi_calls (retryState env (addService env nm a prt ty recs silent s)) = Suc (avahi_calls s)"
  by simp

lemma registerService_returns_without_collision:
  assumes "avahi_reply env (avahi_calls s) \<noteq> AVAHI_ERR_COLLISION"
  shows "\<exists>r s'. registerService fuel env nm a prt ty recs silent s = Some (r, s')"
  using assms
  by (cases "commitService env (addService env nm a prt ty recs silent (prepared nm a prt ty recs s))")
     (auto simp: registerService.simps[of fuel env nm a prt ty recs silent s] Let_def)

lemma registerService_returns:
  assumes "avahi_reply env (avahi_calls s + j) \<noteq> AVAHI_ERR_COLLISION" and "j \<le> fuel"
  shows "\<exists>r s'. registerService fuel env nm a prt ty recs silent s = Some (r, s')"
  using assms
proof (induction j arbitrary: fuel nm a prt ty recs silent s)
  case 0
  then show ?case by (simp add: registerService_returns_without_collision)
next
  case (Suc j)
  from Suc.prems(2) obtain fuel' where fuel: "fuel = Suc fuel'" and le: "j \<le> fuel'"
    by (cases fuel) simp_all
  let ?s3 = "addService env nm a prt ty recs silent (prepared nm a prt ty recs s)"
  have "avahi_reply env (avahi_calls (retryState env ?s3) + j) \<noteq> AVAHI_ERR_COLLISION"
    using Suc.prems(1) by simp
  from Suc.IH[OF this le] obtain ok s4 where
    "handleCollision fuel env ?s3 = Some (ok, s4)"
    unfolding fuel handleCollision_Suc by blast
  then show ?case
    by (cases "commitService env ?s3"; cases "commitService env s4")
       (auto simp: registerService.simps[of fuel env nm a prt ty recs silent s] Let_def)
qed

lemma registerService_never_returns:
  assumes "\<forall>j. avahi_reply env (avahi_calls s + j) = AVAHI_ERR_COLLISION"
    and "clientRunning s"
    and "groupIsEmpty (createGroupIfUnset s)"
  shows "registerService fuel env nm a prt ty recs silent s = None"
  using assms
proof (induction fuel arbitrary: nm a prt ty recs silent s)
  case 0
  from "0.prems"(1) have "avahi_reply env (avahi_calls s) = AVAHI_ERR_COLLISION"
    by (metis add.right_neutral)
  with "0.prems"(2,3) show ?case
    by (simp add: registerService_on_collision)
next
  case (Suc fuel)
  from Suc.prems(1) have c: "avahi_reply env (avahi_calls s) = AVAHI_ERR_COLLISION"
    by (metis add.right_neutral)
  let ?s3 = "addService env nm a prt ty recs silent (prepared nm a prt ty recs s)"
  have "\<forall>j. avahi_reply env (avahi_calls (retryState env ?s3) + j) = AVAHI_ERR_COLLISION"
  proof
    fix j
    from Suc.prems(1) have "avahi_reply env (avahi_calls s + Suc j) = AVAHI_ERR_COLLISION"
      by blast
    then show "avahi_reply env (avahi_calls (retryState env ?s3) + j) = AVAHI_ERR_COLLISION"
      by simp
  qed
  moreover have "clientRunning (retryState env ?s3)"
    using Suc.prems(2) by (simp add: clientRunning_def)
  moreover have "groupIsEmpty (createGroupIfUnset (retryState env ?s3))"
    by (intro groupIsEmpty_retryState) (simp add: d_group_addService_Some d_group_createGroupIfUnset)
  ultimately have "handleCollision (Suc fuel) env ?s3 = None"
    unfolding handleCollision_Suc by (rule Suc.IH)
  with c Suc.prems(2,3) show ?case
    by (simp add: registerService_on_collision)
qed

subsection \<open>What a successful retry announces\<close>








section \<open>The claims\<close>

subsection \<open>C1: the interface handed to the discovery layer\<close>

text \<open>
  C1. The claim asks for the index of the first interface whose subnet holds the bind
  address. On a host whose wired interface (index 2) and wireless interface (index 3) are
  on the same network, registering on the address of the wired interface, the first such
  interface has index 2, while the loops of the code yield index 3, and that index is in
  the entry added to the group.
\<close>

theorem interface_of_last_matching_subnet:
  "spec_firstMatchingInterface homeNetwork (IPv4Address 0xC0A8010A) = 2 \<and>
   interfaceIndexFor homeNetwork (IPv4Address 0xC0A8010A) = 3 \<and>
   map_option (\<lambda>(r, s). (r, map_option (\<lambda>g. map e_interface (entries g)) (d_group s)))
     (registerService 0 homeNetwork ''printer'' (IPv4Address 0xC0A8010A) 9100 ''_ipp._tcp''
        [''note'' \<mapsto> ''office''] False freshService) = Some (True, Some [3])"
  by (simp add: spec_firstMatchingInterface_def interfaceIndexFor_def maskedEqual_def
      registerService.simps step_defs avahi_defs Let_def protocolOf_def homeNetwork_def
      freshService_def
      AVAHI_IF_UNSPEC_def AVAHI_PROTO_INET_def AVAHI_ERR_COLLISION_def)

subsection \<open>C2: a call that returns false\<close>

text \<open>
  C2 as stated fails: after a successful registration a second \<^verbatim>\<open>registerService\<close>
  without a reset returns false ("already registered"), and \<^verbatim>\<open>isValid()\<close> is still true,
  because the group exists and no error is recorded.
\<close>

theorem failed_register_counterexample:
  "registerService 0 homeNetwork ''printer'' (IPv4Address 0) 9100 ''_ipp._tcp''
     [''note'' \<mapsto> ''office''] False freshService = Some (True, printerRegistered) \<and>
   map_option (\<lambda>(r, s). (r, isValid s))
     (registerService 0 homeNetwork ''printer2'' (IPv4Address 0xC0A8010A) 631 ''_http._tcp''
        Map.empty False printerRegistered) = Some (False, True)"
  unfolding example_register example_register_again
  by (simp add: isValid_def printerRegistered_def freshService_def)

text \<open>
  C2, amended. After a \<^verbatim>\<open>registerService\<close> that returns false the cached state is the one
  before the call. If the client was running and the group was empty, so that the call
  reached the discovery layer, an error is recorded and \<^verbatim>\<open>isValid()\<close> is false. If the
  client was not running or the group was not empty, group and recorded error are
  untouched and \<^verbatim>\<open>isValid()\<close> is what it was. Unless the add-service call answered with a
  collision, a group that is committed afterwards was committed before. \<^verbatim>\<open>errorString()\<close>
  is not empty as long as Avahi's error texts are not.
\<close>

theorem failed_register_state:
  assumes "registerService fuel env nm a prt ty recs silent s = Some (False, s')"
  shows "m_state s' = m_state s \<and>
         (clientRunning s \<and> groupIsEmpty (createGroupIfUnset s) \<longrightarrow> \<not> isValid s') \<and>
         (\<not> (clientRunning s \<and> groupIsEmpty (createGroupIfUnset s)) \<longrightarrow>
            isValid s' = isValid s \<and> d_group s' = d_group s) \<and>
         (avahi_reply env (avahi_calls s) \<noteq> AVAHI_ERR_COLLISION \<longrightarrow>
            (\<forall>g'. d_group s' = Some g' \<and> committed g' \<longrightarrow>
                  (\<exists>g. d_group s = Some g \<and> committed g))) \<and>
         ((\<forall>c. avahi_strerror env c \<noteq> []) \<longrightarrow> errorString env s' \<noteq> [])"
proof -
  have st: "m_state s' = m_state s"
    using assms by (rule registerService_m_state)
  have err: "clientRunning s \<and> groupIsEmpty (createGroupIfUnset s) \<longrightarrow> \<not> isValid s'"
    using registerService_failure_error[OF assms] by (simp add: isValid_def)
  have same: "\<not> (clientRunning s \<and> groupIsEmpty (createGroupIfUnset s)) \<longrightarrow>
            isValid s' = isValid s \<and> d_group s' = d_group s"
    using registerService_not_attempted[OF assms] by (simp add: isValid_def)
  have comm: "avahi_reply env (avahi_calls s) \<noteq> AVAHI_ERR_COLLISION \<longrightarrow>
            (\<forall>g'. d_group s' = Some g' \<and> committed g' \<longrightarrow>
                  (\<exists>g. d_group s = Some g \<and> committed g))"
    using registerService_failure_not_committed[OF assms] by blast
  have str: "(\<forall>c. avahi_strerror env c \<noteq> []) \<longrightarrow> errorString env s' \<noteq> []"
    by (simp add: errorString_def)
  from st err same comm str show ?thesis by blast
qed

theorem failed_register_state_witness:
  "map_option fst (registerService 0 homeNetwork ''printer2'' (IPv4Address 0xC0A8010A) 631
      ''_http._tcp'' Map.empty False printerRegistered) = Some False \<and>
   map_option (\<lambda>(r, s). (m_state s, isValid s, d_group s))
     (registerService 0 homeNetwork ''printer2'' (IPv4Address 0xC0A8010A) 631
        ''_http._tcp'' Map.empty False printerRegistered) =
   Some (m_state printerRegistered, isValid printerRegistered, d_group printerRegistered) \<and>
   map_option (\<lambda>(r, s). (r, m_state s, isValid s, map_option committed (d_group s)))
     (registerService 0 refusingDaemon ''printer'' (IPv4Address 0) 9100 ''_ipp._tcp''
        [''note'' \<mapsto> ''office''] False freshService) =
   Some (False, QtAvahiServiceStateUncommitted, False, Some False) \<and>
   (\<forall>c. avahi_strerror refusingDaemon c \<noteq> []) \<and>
   map_option (\<lambda>(r, s). errorString refusingDaemon s \<noteq> [])
     (registerService 0 refusingDaemon ''printer'' (IPv4Address 0) 9100 ''_ipp._tcp''
        [''note'' \<mapsto> ''office''] False freshService) = Some True"
proof -
  have texts: "\<forall>c. avahi_strerror refusingDaemon c \<noteq> []"
    by (simp add: refusingDaemon_def homeNetwork_def)
  have nonempty: "\<not> groupIsEmpty (createGroupIfUnset printerRegistered)"
    by (simp add: groupIsEmpty_def createGroupIfUnset_def avahi_entry_group_is_empty_def
        printerRegistered_def freshService_def)
  have fresh: "clientRunning freshService" "groupIsEmpty (createGroupIfUnset freshService)"
    "m_state freshService = QtAvahiServiceStateUncommitted"
    by (simp_all add: clientRunning_def groupIsEmpty_def createGroupIfUnset_def
        avahi_entry_group_is_empty_def avahi_entry_group_new_def freshService_def)
  note again = failed_register_state[OF example_register_again]
  note refused = failed_register_state[OF example_register_refused]
  have a: "map_option (\<lambda>(r, s). (m_state s, isValid s, d_group s))
     (registerService 0 homeNetwork ''printer2'' (IPv4Address 0xC0A8010A) 631
        ''_http._tcp'' Map.empty False printerRegistered) =
   Some (m_state printerRegistered, isValid printerRegistered, d_group printerRegistered)"
    unfolding example_register_again using again nonempty by simp
  have b: "map_option (\<lambda>(r, s). (r, m_state s, isValid s, map_option committed (d_group s)))
     (registerService 0 refusingDaemon ''printer'' (IPv4Address 0) 9100 ''_ipp._tcp''
        [''note'' \<mapsto> ''office''] False freshService) =
   Some (False, QtAvahiServiceStateUncommitted, False, Some False)"
    unfolding example_register_refused using refused fresh by simp
  have c: "map_option (\<lambda>(r, s). errorString refusingDaemon s \<noteq> [])
     (registerService 0 refusingDaemon ''printer'' (IPv4Address 0) 9100 ''_ipp._tcp''
        [''note'' \<mapsto> ''office''] False freshService) = Some True"
    unfolding example_register_refused using refused texts by simp
  show ?thesis using a b c texts by (simp add: example_register_again)
qed

subsection \<open>C3: the records after \<^verbatim>\<open>updateTxtRecord\<close>\<close>

text \<open>
  C3. The claim asks that the records seen through \<^verbatim>\<open>txtRecords()\<close> and used by a later
  collision retry are the new ones exactly when \<^verbatim>\<open>updateTxtRecord\<close> returns true. On the
  registered printer with the note "office", an accepted update to "home" returns true and
  the discovery layer holds "home", but \<^verbatim>\<open>txtRecords()\<close> still returns "office" and a
  collision handled afterwards announces "office" again; only \<open>m_txtRecords\<close> holds "home",
  and it does so as well when the daemon refuses the update and the call returns false.
\<close>

theorem updateTxtRecord_leaves_accessor_stale:
  "fst (updateTxtRecord homeNetwork [''note'' \<mapsto> ''home''] printerRegistered) = True \<and>
   txtRecords (snd (updateTxtRecord homeNetwork [''note'' \<mapsto> ''home''] printerRegistered))
     ''note'' = Some ''office'' \<and>
   m_txtRecords (snd (updateTxtRecord homeNetwork [''note'' \<mapsto> ''home''] printerRegistered))
     ''note'' = Some ''home'' \<and>
   map_option (\<lambda>g. map e_txt (entries g))
     (d_group (snd (updateTxtRecord homeNetwork [''note'' \<mapsto> ''home''] printerRegistered)))
     = Some [[''note=home'']] \<and>
   map_option (\<lambda>(r, s). (r, map_option (\<lambda>g. map e_txt (entries g)) (d_group s)))
     (handleCollision (Suc 0) homeNetwork
        (snd (updateTxtRecord homeNetwork [''note'' \<mapsto> ''home''] printerRegistered)))
     = Some (True, Some [[''note=office'']]) \<and>
   fst (updateTxtRecord refusingDaemon [''note'' \<mapsto> ''home''] printerRegistered) = False \<and>
   m_txtRecords (snd (updateTxtRecord refusingDaemon [''note'' \<mapsto> ''home''] printerRegistered))
     ''note'' = Some ''home''"
  by (simp add: updateTxtRecord_def handleCollision_Suc registerService.simps resetService_def
      step_defs avahi_defs accessor_defs sameService_def Let_def interfaceIndexFor_def
      protocolOf_def refusingDaemon_def homeNetwork_def freshService_def printerRegistered_def
      printerEntry_def AVAHI_IF_UNSPEC_def AVAHI_PROTO_INET_def AVAHI_ERR_COLLISION_def)

subsection \<open>C4: handling a collision\<close>




subsection \<open>C5: state changes reported by the discovery layer\<close>

text \<open>
  C5. \<^verbatim>\<open>onStateChanged\<close> with the state that is already cached returns the object
  unchanged, so nothing is retried. With another state that is not the collision state it
  only replaces the cached state. With the collision state it replaces the cached state
  and runs \<^verbatim>\<open>handleCollision\<close>, and nothing else. Whenever it returns, the cached state is
  the state delivered.
\<close>

theorem onStateChanged_behaviour:
  "(m_state s = st \<longrightarrow> onStateChanged fuel env st s = Some s) \<and>
   (m_state s \<noteq> st \<and> st \<noteq> QtAvahiServiceStateCollision \<longrightarrow>
      onStateChanged fuel env st s = Some (s\<lparr>m_state := st\<rparr>)) \<and>
   (m_state s \<noteq> QtAvahiServiceStateCollision \<longrightarrow>
      onStateChanged fuel env QtAvahiServiceStateCollision s =
        map_option snd (handleCollision fuel env (s\<lparr>m_state := QtAvahiServiceStateCollision\<rparr>))) \<and>
   (onStateChanged fuel env st s = Some s' \<longrightarrow> m_state s' = st)"
proof -
  have same: "m_state s = st \<longrightarrow> onStateChanged fuel env st s = Some s"
    by (simp add: onStateChanged_def)
  have other: "m_state s \<noteq> st \<and> st \<noteq> QtAvahiServiceStateCollision \<longrightarrow>
      onStateChanged fuel env st s = Some (s\<lparr>m_state := st\<rparr>)"
    by (cases st) (simp_all add: onStateChanged_def)
  have coll: "m_state s \<noteq> QtAvahiServiceStateCollision \<longrightarrow>
      onStateChanged fuel env QtAvahiServiceStateCollision s =
        map_option snd (handleCollision fuel env (s\<lparr>m_state := QtAvahiServiceStateCollision\<rparr>))"
    by (simp add: onStateChanged_def)
  have cached: "onStateChanged fuel env st s = Some s' \<longrightarrow> m_state s' = st"
  proof
    assume ret: "onStateChanged fuel env st s = Some s'"
    show "m_state s' = st"
    proof (cases "m_state s = st")
      case True
      with ret show ?thesis by (simp add: onStateChanged_def)
    next
      case False
      show ?thesis
      proof (cases "st = QtAvahiServiceStateCollision")
        case True
        with False ret obtain r where
          "handleCollision fuel env (s\<lparr>m_state := QtAvahiServiceStateCollision\<rparr>) = Some (r, s')"
          by (auto simp: onStateChanged_def)
        from handleCollision_m_state[OF this] True show ?thesis by simp
      next
        case notColl: False
        with False ret show ?thesis by (cases st) (auto simp: onStateChanged_def)
      qed
    qed
  qed
  from same other coll cached show ?thesis by blast
qed

theorem onStateChanged_behaviour_witness:
  "m_state printerRegistered = QtAvahiServiceStateUncommitted \<and>
   onStateChanged (Suc 0) homeNetwork QtAvahiServiceStateUncommitted printerRegistered
     = Some printerRegistered \<and>
   onStateChanged (Suc 0) homeNetwork QtAvahiServiceStateEstablished printerRegistered
     = Some (printerRegistered\<lparr>m_state := QtAvahiServiceStateEstablished\<rparr>) \<and>
   map_option (\<lambda>s. (m_state s, name s)) 
     (onStateChanged (Suc 0) homeNetwork QtAvahiServiceStateCollision printerRegistered)
     = Some (QtAvahiServiceStateCollision, ''printer #2'')"
proof -
  have st: "m_state printerRegistered = QtAvahiServiceStateUncommitted"
    by (simp add: printerRegistered_def freshService_def)
  note th = onStateChanged_behaviour[of printerRegistered _ "Suc 0" homeNetwork]
  have a: "onStateChanged (Suc 0) homeNetwork QtAvahiServiceStateUncommitted printerRegistered
     = Some printerRegistered"
    using th[of QtAvahiServiceStateUncommitted] st by simp
  have b: "onStateChanged (Suc 0) homeNetwork QtAvahiServiceStateEstablished printerRegistered
     = Some (printerRegistered\<lparr>m_state := QtAvahiServiceStateEstablished\<rparr>)"
    using th[of QtAvahiServiceStateEstablished] st by simp
  have c: "onStateChanged (Suc 0) homeNetwork QtAvahiServiceStateCollision printerRegistered =
        map_option snd (handleCollision (Suc 0) homeNetwork
          (printerRegistered\<lparr>m_state := QtAvahiServiceStateCollision\<rparr>))"
    using th[of QtAvahiServiceStateCollision] st by simp
  show ?thesis
    using st a b by (simp add: c example_collision_retry name_def)
qed

subsection \<open>C6: the state in which the timer runs\<close>

text \<open>
  C6 as stated fails: right after the first successful \<^verbatim>\<open>registerService\<close> the timer runs
  and the cached state is still \<^verbatim>\<open>QtAvahiServiceStateUncommitted\<close>.
\<close>

theorem timer_running_before_established:
  "reachable homeNetwork printerRegistered \<and>
   isActive (m_reregisterTimer printerRegistered) \<and>
   m_state printerRegistered \<noteq> QtAvahiServiceStateEstablished"
  using example_reachable by (simp add: isActive_def printerRegistered_def freshService_def)

text \<open>
  C6, amended. In every reachable configuration in which the timer runs, the group
  exists, holds an entry, and a commit of it has been accepted. The cached state is not
  tied to the timer.
\<close>

theorem timer_runs_only_when_announced:
  assumes "reachable env s" and "isActive (m_reregisterTimer s)"
  shows "announced s"
  using reachable_timerGuarded[OF assms(1)] assms(2) by (simp add: timerGuarded_def)

theorem timer_runs_only_when_announced_witness:
  "reachable homeNetwork printerRegistered \<and> isActive (m_reregisterTimer printerRegistered) \<and>
   announced printerRegistered"
proof -
  have act: "isActive (m_reregisterTimer printerRegistered)"
    by (simp add: isActive_def printerRegistered_def freshService_def)
  from timer_runs_only_when_announced[OF example_reachable act] example_reachable act
  show ?thesis by simp
qed

subsection \<open>C7: the refresh timer\<close>

text \<open>
  C7. In a reachable configuration every \<^verbatim>\<open>registerService\<close> that returns true leaves the
  timer single-shot with its interval of 60000 ms and the full interval ahead, whatever
  was left of an earlier run. The timeout of the timer is \<^verbatim>\<open>resetService(true)\<close> on the
  object with the timer no longer active, followed by \<^verbatim>\<open>registerService\<close> with the cached
  \<open>m_name\<close>, \<open>m_hostAddress\<close>, \<open>m_port\<close>, \<open>m_serviceType\<close>, \<open>m_txtRecords\<close> and
  \<open>silent = true\<close>.
\<close>

theorem refresh_timer_cycle:
  assumes "reachable env s"
  shows "(registerService fuel env nm a prt ty recs silent s = Some (True, s') \<longrightarrow>
            m_reregisterTimer s' =
              \<lparr>interval = 60000, singleShot = True, remaining = Some 60000\<rparr>) \<and>
         timeout fuel env s =
           map_option snd
             (registerService fuel env (m_name s) (m_hostAddress s) (m_port s)
                (m_serviceType s) (m_txtRecords s) True
                (resetService True
                   (s\<lparr>m_reregisterTimer :=
                        \<lparr>interval = 60000, singleShot = True, remaining = None\<rparr>\<rparr>)))"
proof -
  from reachable_timer_config[OF assms]
  have cfg: "interval (m_reregisterTimer s) = 60000" "singleShot (m_reregisterTimer s)"
    by simp_all
  have start: "registerService fuel env nm a prt ty recs silent s = Some (True, s') \<longrightarrow>
      m_reregisterTimer s' = \<lparr>interval = 60000, singleShot = True, remaining = Some 60000\<rparr>"
  proof
    assume "registerService fuel env nm a prt ty recs silent s = Some (True, s')"
    from registerService_timer[OF this] cfg show
      "m_reregisterTimer s' = \<lparr>interval = 60000, singleShot = True, remaining = Some 60000\<rparr>"
      by simp
  qed
  have fired: "QTimer_fired (m_reregisterTimer s) =
      \<lparr>interval = 60000, singleShot = True, remaining = None\<rparr>"
    using cfg by (simp add: QTimer_fired_def QTimer_stop_def)
  have "timeout fuel env s =
           map_option snd
             (registerService fuel env (m_name s) (m_hostAddress s) (m_port s)
                (m_serviceType s) (m_txtRecords s) True
                (resetService True
                   (s\<lparr>m_reregisterTimer :=
                        \<lparr>interval = 60000, singleShot = True, remaining = None\<rparr>\<rparr>)))"
    unfolding timeout_def Let_def fired by simp
  with start show ?thesis by blast
qed

theorem refresh_timer_cycle_witness:
  "reachable homeNetwork freshService \<and>
   registerService 0 homeNetwork ''printer'' (IPv4Address 0) 9100 ''_ipp._tcp''
     [''note'' \<mapsto> ''office''] False freshService = Some (True, printerRegistered) \<and>
   m_reregisterTimer printerRegistered =
     \<lparr>interval = 60000, singleShot = True, remaining = Some 60000\<rparr>"
proof -
  have r: "reachable homeNetwork freshService"
    by (rule r_constructed) (simp add: constructed_def freshService_def)
  from refresh_timer_cycle[OF r, of 0 "''printer''" "IPv4Address 0" 9100 "''_ipp._tcp''"
      "[''note'' \<mapsto> ''office'']" False printerRegistered] example_register r
  show ?thesis by simp
qed

subsection \<open>C8: a client that is not running\<close>

text \<open>
  C8. If the discovery client is not connected and running, \<^verbatim>\<open>registerService\<close> returns
  false at once, whatever the arguments and however deep the retry bound, and changes
  nothing of the registration: the state it returns is the state it was called in with
  one warning appended to the log, so the cached values, the group, the cached state,
  the recorded error and the timer are as before the call.
\<close>

theorem registerService_client_not_running:
  assumes "\<not> clientRunning s"
  shows "registerService fuel env nm a prt ty recs silent s =
           Some (False, s\<lparr>log := log s @ [WarnClientNotAvailable nm prt ty]\<rparr>)"
  using assms by (simp add: registerService.simps writeLog_def)

theorem registerService_client_not_running_witness:
  "\<not> clientRunning (freshService\<lparr>d_client := Some AVAHI_CLIENT_CONNECTING\<rparr>) \<and>
   registerService 0 homeNetwork ''printer'' (IPv4Address 0) 9100 ''_ipp._tcp''
     [''note'' \<mapsto> ''office''] False (freshService\<lparr>d_client := Some AVAHI_CLIENT_CONNECTING\<rparr>) =
   Some (False, freshService\<lparr>d_client := Some AVAHI_CLIENT_CONNECTING,
                              log := [WarnClientNotAvailable ''printer'' 9100 ''_ipp._tcp'']\<rparr>)"
proof -
  have nr: "\<not> clientRunning (freshService\<lparr>d_client := Some AVAHI_CLIENT_CONNECTING\<rparr>)"
    by (simp add: clientRunning_def)
  show ?thesis
    using nr registerService_client_not_running[OF nr, of 0 homeNetwork "''printer''"
        "IPv4Address 0" 9100 "''_ipp._tcp''" "[''note'' \<mapsto> ''office'']" False]
    by (simp add: freshService_def)
qed

subsection \<open>C9: resetting twice\<close>

text \<open>
  C9. \<^verbatim>\<open>resetService\<close> without a group only writes a warning. With a group it releases the
  record list, resets the group (no entries, not committed) and stops the timer; a second
  call right after the first leaves that configuration as it is, adding at most the debug
  line of a call that is not silent.
\<close>

theorem resetService_idempotent:
  "(d_group s = None \<longrightarrow> resetService silent s = s\<lparr>log := log s @ [WarnNoGroup]\<rparr>) \<and>
   (d_group s \<noteq> None \<longrightarrow>
      d_serviceList (resetService silent s) = None \<and>
      d_group (resetService silent s) = Some \<lparr>entries = [], committed = False\<rparr> \<and>
      \<not> isActive (m_reregisterTimer (resetService silent s)) \<and>
      resetService silent' (resetService silent s) =
        (resetService silent s)
          \<lparr>log := log (resetService silent s) @ (if silent' then [] else [DebugUnregistering])\<rparr>)"
  by (auto simp: resetService_def writeLog_def QTimer_stop_def isActive_def Let_def
      avahi_entry_group_reset_def)

theorem resetService_idempotent_witness:
  "d_group printerRegistered \<noteq> None \<and>
   d_group (resetService False printerRegistered) = Some \<lparr>entries = [], committed = False\<rparr> \<and>
   \<not> isActive (m_reregisterTimer (resetService False printerRegistered)) \<and>
   resetService True (resetService False printerRegistered) = resetService False printerRegistered \<and>
   d_group freshService = None \<and>
   resetService False freshService = freshService\<lparr>log := [WarnNoGroup]\<rparr>"
  using resetService_idempotent[of printerRegistered False True]
    resetService_idempotent[of freshService False True]
  by (simp add: printerRegistered_def freshService_def)

subsection \<open>C10: the cached values after any call with a running client\<close>

text \<open>
  C10. When the client is running, \<^verbatim>\<open>registerService\<close> caches its arguments before it
  looks at the group or calls the discovery layer. So whenever the call returns, with true
  or with false, both copies of the address, port, service type and records are the
  arguments of the call, and both copies of the name are the name argument, or, when
  collisions were handled on the way, an alternative name derived from it. If the
  add-service call did not collide (or was not made, the group not being empty), the
  name is the argument itself. These are the values a later timeout of the timer
  (\<open>m_\<close> copies) and a later \<^verbatim>\<open>handleCollision\<close> (accessors) use.
\<close>

theorem registerService_caches_arguments:
  assumes "clientRunning s"
    and "registerService fuel env nm a prt ty recs silent s = Some (r, s')"
  shows "m_hostAddress s' = a \<and> hostAddress s' = a \<and> m_port s' = prt \<and> port s' = prt \<and>
         m_serviceType s' = ty \<and> serviceType s' = ty \<and>
         m_txtRecords s' = recs \<and> txtRecords s' = recs \<and>
         (\<exists>k. m_name s' = (avahi_alternative_service_name env ^^ k) nm \<and>
              name s' = (avahi_alternative_service_name env ^^ k) nm) \<and>
         (\<not> (groupIsEmpty (createGroupIfUnset s) \<and>
             avahi_reply env (avahi_calls s) = AVAHI_ERR_COLLISION) \<longrightarrow>
            m_name s' = nm \<and> name s' = nm)"
  using registerService_descriptor[OF assms(2)] assms(1)
    registerService_name_no_collision[OF assms(2) assms(1)]
  by (simp add: accessor_defs)

theorem registerService_caches_arguments_witness:
  "clientRunning printerRegistered \<and>
   map_option fst (registerService 0 homeNetwork ''printer2'' (IPv4Address 0xC0A8010A) 631
     ''_http._tcp'' Map.empty False printerRegistered) = Some False \<and>
   map_option (\<lambda>(r, s). (m_name s, name s, m_hostAddress s, hostAddress s, m_port s, port s,
                 m_serviceType s, serviceType s))
     (registerService 0 homeNetwork ''printer2'' (IPv4Address 0xC0A8010A) 631
       ''_http._tcp'' Map.empty False printerRegistered) =
   Some (''printer2'', ''printer2'', IPv4Address 0xC0A8010A, IPv4Address 0xC0A8010A, 631, 631,
         ''_http._tcp'', ''_http._tcp'')"
proof -
  have run: "clientRunning printerRegistered"
    by (simp add: clientRunning_def printerRegistered_def freshService_def)
  have noColl: "avahi_reply homeNetwork (avahi_calls printerRegistered) \<noteq> AVAHI_ERR_COLLISION"
    by (simp add: homeNetwork_def AVAHI_ERR_COLLISION_def)
  from registerService_caches_arguments[OF run example_register_again] noColl run
  show ?thesis by (simp add: example_register_again)
qed

end
